theory Spec2Isabelle
  imports Complex_Main
begin

section \<open>Swept AABB collision in 3D: Main.cpp\<close>

text \<open>
  The program works on C++ \<^verbatim>\<open>float\<close> and \<^verbatim>\<open>double\<close> values. They are modelled
  here as exact real numbers: rounding, overflow, NaN and signed zeros are left out. The
  two infinities that \<^verbatim>\<open>SweptAABB\<close> stores in its entry and exit times are kept, as
  the constructors of \<open>fval\<close>.
\<close>

subsection \<open>Float values with the two infinities\<close>

datatype fval = NegInf | Fin real | PosInf

instantiation fval :: linorder
begin

fun less_eq_fval :: "fval \<Rightarrow> fval \<Rightarrow> bool" where
  "less_eq_fval NegInf b = True"
| "less_eq_fval (Fin a) NegInf = False"
| "less_eq_fval (Fin a) (Fin b) = (a \<le> b)"
| "less_eq_fval (Fin a) PosInf = True"
| "less_eq_fval PosInf NegInf = False"
| "less_eq_fval PosInf (Fin b) = False"
| "less_eq_fval PosInf PosInf = True"

fun less_fval :: "fval \<Rightarrow> fval \<Rightarrow> bool" where
  "less_fval NegInf NegInf = False"
| "less_fval NegInf (Fin b) = True"
| "less_fval NegInf PosInf = True"
| "less_fval (Fin a) NegInf = False"
| "less_fval (Fin a) (Fin b) = (a < b)"
| "less_fval (Fin a) PosInf = True"
| "less_fval PosInf b = False"

instance
proof
  fix a b c :: fval
  show "(a < b) = (a \<le> b \<and> \<not> b \<le> a)"
    by (cases a; cases b) auto
  show "a \<le> a"
    by (cases a) auto
  show "a \<le> b \<Longrightarrow> b \<le> c \<Longrightarrow> a \<le> c"
    by (cases a; cases b; cases c) auto
  show "a \<le> b \<Longrightarrow> b \<le> a \<Longrightarrow> a = b"
    by (cases a; cases b) auto
  show "a \<le> b \<or> b \<le> a"
    by (cases a; cases b) auto
qed

end

subsection \<open>Vectors and boxes\<close>

text \<open>\<^verbatim>\<open>glm::vec3\<close>: three floats, with the two operators the program uses.\<close>

record vec3 =
  vec_x :: real
  vec_y :: real
  vec_z :: real

definition vec3 :: "real \<Rightarrow> real \<Rightarrow> real \<Rightarrow> vec3" where
  "vec3 a b c = \<lparr>vec_x = a, vec_y = b, vec_z = c\<rparr>"

definition vec3_add :: "vec3 \<Rightarrow> vec3 \<Rightarrow> vec3" where
  "vec3_add u v = vec3 (vec_x u + vec_x v) (vec_y u + vec_y v) (vec_z u + vec_z v)"

definition vec3_scale :: "vec3 \<Rightarrow> real \<Rightarrow> vec3" where
  "vec3_scale v s = vec3 (vec_x v * s) (vec_y v * s) (vec_z v * s)"

text \<open>\<^verbatim>\<open>struct AABB { glm::vec3 min, max; }\<close>, as \<^verbatim>\<open>SweptAABB\<close> reads it.\<close>

record AABB =
  box_min :: vec3
  box_max :: vec3

text \<open>\<^verbatim>\<open>TestAABB\<close> (Main.cpp 66-74): the plain overlap test.\<close>

definition TestAABB :: "AABB \<Rightarrow> AABB \<Rightarrow> bool" where
  "TestAABB a b =
     (if vec_x (box_max a) < vec_x (box_min b) \<or> vec_x (box_min a) > vec_x (box_max b) then False
      else if vec_y (box_max a) < vec_y (box_min b) \<or> vec_y (box_min a) > vec_y (box_max b) then False
      else if vec_z (box_max a) < vec_z (box_min b) \<or> vec_z (box_min a) > vec_z (box_max b) then False
      else True)"

subsection \<open>SweptAABB\<close>

text \<open>
  A computation that would leave the model is a fault: a division whose divisor is zero,
  or (in \<open>update\<close>) arithmetic on a collision time that is not a finite number.
\<close>

datatype fault = DivideByZero | NonFiniteTime

definition divide_checked :: "real \<Rightarrow> real \<Rightarrow> fault + real" where
  "divide_checked a b = (if b = 0 then Inl DivideByZero else Inr (a / b))"

text \<open>
  Main.cpp 87-118, one axis: the entry and exit distances. \<open>vel\<close> is the component of
  \<^verbatim>\<open>vel1\<close>, \<open>min1\<close>, \<open>max1\<close> the bounds of \<^verbatim>\<open>box1\<close> (the moving box) and \<open>min2\<close>,
  \<open>max2\<close> those of \<^verbatim>\<open>box2\<close> on that axis. The source writes the same code three
  times, for x, y and z.
\<close>

definition DistanceEntry :: "real \<Rightarrow> real \<Rightarrow> real \<Rightarrow> real \<Rightarrow> real \<Rightarrow> real" where
  "DistanceEntry vel min1 max1 min2 max2 = (if vel > 0 then min2 - max1 else max2 - min1)"

definition DistanceExit :: "real \<Rightarrow> real \<Rightarrow> real \<Rightarrow> real \<Rightarrow> real \<Rightarrow> real" where
  "DistanceExit vel min1 max1 min2 max2 = (if vel > 0 then max2 - min1 else min2 - max1)"

text \<open>
  Main.cpp 125-185, one axis: the pair (entry time, exit time). \<open>extents\<close> is
  \<^verbatim>\<open>(box1.max - box1.min) + (box2.max - box2.min)\<close> on the axis.
\<close>

definition EntryExitTime :: "real \<Rightarrow> real \<Rightarrow> real \<Rightarrow> real \<Rightarrow> fault + (fval \<times> fval)" where
  "EntryExitTime vel distanceEntry distanceExit extents =
     (if vel = 0 then
        Inr (if max \<bar>distanceEntry\<bar> \<bar>distanceExit\<bar> > extents then Fin 2 else NegInf, PosInf)
      else
        (case divide_checked distanceEntry vel of
           Inl e \<Rightarrow> Inl e
         | Inr entry \<Rightarrow>
             (case divide_checked distanceExit vel of
                Inl e \<Rightarrow> Inl e
              | Inr exit \<Rightarrow> Inr (Fin entry, Fin exit))))"

text \<open>
  Main.cpp 187-265: the decision, from the six times, the three entry distances and the
  values the three normal out-parameters hold on entry. The result is the returned time
  and the values of \<^verbatim>\<open>normalx\<close>, \<^verbatim>\<open>normaly\<close>, \<^verbatim>\<open>normalz\<close> on return. When no arm of
  the cascade at 217-261 is taken, the function has not written them.
\<close>

type_synonym normal3 = "real \<times> real \<times> real"

definition SweptAABB_decide ::
  "fval \<Rightarrow> fval \<Rightarrow> fval \<Rightarrow> fval \<Rightarrow> fval \<Rightarrow> fval \<Rightarrow> real \<Rightarrow> real \<Rightarrow> real \<Rightarrow> normal3 \<Rightarrow> fval \<times> normal3" where
  "SweptAABB_decide xEntryTime yEntryTime zEntryTime xExitTime yExitTime zExitTime
       xDistanceEntry yDistanceEntry zDistanceEntry normal =
     (let entryTime = max (max xEntryTime yEntryTime) zEntryTime;
          exitTime = min (min xExitTime yExitTime) zExitTime
      in if entryTime > exitTime
            \<or> xEntryTime < Fin 0 \<and> yEntryTime < Fin 0 \<and> zEntryTime < Fin 0
            \<or> xEntryTime > Fin 1 \<or> yEntryTime > Fin 1 \<or> zEntryTime > Fin 1
         then (Fin 2, (0, 0, 0))
         else
           (entryTime,
            if xEntryTime > yEntryTime \<and> xEntryTime > zEntryTime then
              (if xDistanceEntry < 0 then (1, 0, 0) else (- 1, 0, 0))
            else if yEntryTime > xEntryTime \<and> yEntryTime > zEntryTime then
              (if yDistanceEntry < 0 then (0, 1, 0) else (0, - 1, 0))
            else if zEntryTime > xEntryTime \<and> zEntryTime > yEntryTime then
              (if zDistanceEntry < 0 then (0, 0, 1) else (0, 0, - 1))
            else normal))"

text \<open>
  \<^verbatim>\<open>float SweptAABB(AABB* box1, AABB* box2, glm::vec3 vel1, float& normalx, float&
  normaly, float& normalz)\<close> (Main.cpp 77-266). The last argument holds the values of the three
  reference parameters on entry.
\<close>

definition xDistanceEntry :: "AABB \<Rightarrow> AABB \<Rightarrow> vec3 \<Rightarrow> real" where
  "xDistanceEntry box1 box2 vel1 =
     DistanceEntry (vec_x vel1) (vec_x (box_min box1)) (vec_x (box_max box1))
       (vec_x (box_min box2)) (vec_x (box_max box2))"

definition yDistanceEntry :: "AABB \<Rightarrow> AABB \<Rightarrow> vec3 \<Rightarrow> real" where
  "yDistanceEntry box1 box2 vel1 =
     DistanceEntry (vec_y vel1) (vec_y (box_min box1)) (vec_y (box_max box1))
       (vec_y (box_min box2)) (vec_y (box_max box2))"

definition zDistanceEntry :: "AABB \<Rightarrow> AABB \<Rightarrow> vec3 \<Rightarrow> real" where
  "zDistanceEntry box1 box2 vel1 =
     DistanceEntry (vec_z vel1) (vec_z (box_min box1)) (vec_z (box_max box1))
       (vec_z (box_min box2)) (vec_z (box_max box2))"

definition xDistanceExit :: "AABB \<Rightarrow> AABB \<Rightarrow> vec3 \<Rightarrow> real" where
  "xDistanceExit box1 box2 vel1 =
     DistanceExit (vec_x vel1) (vec_x (box_min box1)) (vec_x (box_max box1))
       (vec_x (box_min box2)) (vec_x (box_max box2))"

definition yDistanceExit :: "AABB \<Rightarrow> AABB \<Rightarrow> vec3 \<Rightarrow> real" where
  "yDistanceExit box1 box2 vel1 =
     DistanceExit (vec_y vel1) (vec_y (box_min box1)) (vec_y (box_max box1))
       (vec_y (box_min box2)) (vec_y (box_max box2))"

definition zDistanceExit :: "AABB \<Rightarrow> AABB \<Rightarrow> vec3 \<Rightarrow> real" where
  "zDistanceExit box1 box2 vel1 =
     DistanceExit (vec_z vel1) (vec_z (box_min box1)) (vec_z (box_max box1))
       (vec_z (box_min box2)) (vec_z (box_max box2))"

text \<open>The sum of the two boxes' extents on an axis, as written at Main.cpp 128, 151 and 170.\<close>

abbreviation xExtents :: "AABB \<Rightarrow> AABB \<Rightarrow> real" where
  "xExtents box1 box2 \<equiv>
     (vec_x (box_max box1) - vec_x (box_min box1)) + (vec_x (box_max box2) - vec_x (box_min box2))"

abbreviation yExtents :: "AABB \<Rightarrow> AABB \<Rightarrow> real" where
  "yExtents box1 box2 \<equiv>
     (vec_y (box_max box1) - vec_y (box_min box1)) + (vec_y (box_max box2) - vec_y (box_min box2))"

abbreviation zExtents :: "AABB \<Rightarrow> AABB \<Rightarrow> real" where
  "zExtents box1 box2 \<equiv>
     (vec_z (box_max box1) - vec_z (box_min box1)) + (vec_z (box_max box2) - vec_z (box_min box2))"

definition xTimes :: "AABB \<Rightarrow> AABB \<Rightarrow> vec3 \<Rightarrow> fault + (fval \<times> fval)" where
  "xTimes box1 box2 vel1 =
     EntryExitTime (vec_x vel1) (xDistanceEntry box1 box2 vel1) (xDistanceExit box1 box2 vel1)
       (xExtents box1 box2)"

definition yTimes :: "AABB \<Rightarrow> AABB \<Rightarrow> vec3 \<Rightarrow> fault + (fval \<times> fval)" where
  "yTimes box1 box2 vel1 =
     EntryExitTime (vec_y vel1) (yDistanceEntry box1 box2 vel1) (yDistanceExit box1 box2 vel1)
       (yExtents box1 box2)"

definition zTimes :: "AABB \<Rightarrow> AABB \<Rightarrow> vec3 \<Rightarrow> fault + (fval \<times> fval)" where
  "zTimes box1 box2 vel1 =
     EntryExitTime (vec_z vel1) (zDistanceEntry box1 box2 vel1) (zDistanceExit box1 box2 vel1)
       (zExtents box1 box2)"

definition SweptAABB :: "AABB \<Rightarrow> AABB \<Rightarrow> vec3 \<Rightarrow> normal3 \<Rightarrow> fault + (fval \<times> normal3)" where
  "SweptAABB box1 box2 vel1 normal =
     (case xTimes box1 box2 vel1 of
        Inl e \<Rightarrow> Inl e
      | Inr (xEntryTime, xExitTime) \<Rightarrow>
     (case yTimes box1 box2 vel1 of
        Inl e \<Rightarrow> Inl e
      | Inr (yEntryTime, yExitTime) \<Rightarrow>
     (case zTimes box1 box2 vel1 of
        Inl e \<Rightarrow> Inl e
      | Inr (zEntryTime, zExitTime) \<Rightarrow>
          Inr (SweptAABB_decide xEntryTime yEntryTime zEntryTime xExitTime yExitTime zExitTime
                 (xDistanceEntry box1 box2 vel1) (yDistanceEntry box1 box2 vel1)
                 (zDistanceEntry box1 box2 vel1) normal))))"


text \<open>The test at Main.cpp 197, on the six times.\<close>

abbreviation no_collision_test :: "fval \<Rightarrow> fval \<Rightarrow> fval \<Rightarrow> fval \<Rightarrow> fval \<Rightarrow> fval \<Rightarrow> bool" where
  "no_collision_test xE yE zE xX yX zX \<equiv>
     (max (max xE yE) zE > min (min xX yX) zX
      \<or> xE < Fin 0 \<and> yE < Fin 0 \<and> zE < Fin 0
      \<or> xE > Fin 1 \<or> yE > Fin 1 \<or> zE > Fin 1)"

text \<open>
  The arm of the cascade at Main.cpp 217-261 that runs, from the guards of its three
  \<^verbatim>\<open>if\<close>s in their order; \<open>None\<close> when the cascade falls through.
\<close>

datatype axis = AxisX | AxisY | AxisZ

definition normal_arm :: "fval \<Rightarrow> fval \<Rightarrow> fval \<Rightarrow> axis option" where
  "normal_arm xEntryTime yEntryTime zEntryTime =
     (if xEntryTime > yEntryTime \<and> xEntryTime > zEntryTime then Some AxisX
      else if yEntryTime > xEntryTime \<and> yEntryTime > zEntryTime then Some AxisY
      else if zEntryTime > xEntryTime \<and> zEntryTime > yEntryTime then Some AxisZ
      else None)"

text \<open>The box with centre \<open>c\<close> and half-extent \<open>h\<close> on every axis, for the scenarios.\<close>

definition box_at :: "vec3 \<Rightarrow> real \<Rightarrow> AABB" where
  "box_at c h =
     \<lparr>box_min = vec3 (vec_x c - h) (vec_y c - h) (vec_z c - h),
      box_max = vec3 (vec_x c + h) (vec_y c + h) (vec_z c + h)\<rparr>"

subsection \<open>The two bodies\<close>

text \<open>
  Modelled from the spec: class \<^verbatim>\<open>GameObject\<close> (GameObject.h is not among the sources).
  A body has a position, a velocity, an orientation (an accumulated Euler-like rotation)
  and its AABB, which is recomputed in full from the current orientation and position.
  \<open>bounds\<close> stands for the body's geometry: the box that bounds it at a given orientation
  and position.
\<close>

record GameObject =
  position :: vec3
  velocity :: vec3
  orientation :: vec3
  bounds :: "vec3 \<Rightarrow> vec3 \<Rightarrow> AABB"
  aabb :: AABB

text \<open>Modelled from the spec: \<^verbatim>\<open>GameObject::SetVelocity\<close> stores the velocity.\<close>

definition GameObject_SetVelocity :: "vec3 \<Rightarrow> GameObject \<Rightarrow> GameObject" where
  "GameObject_SetVelocity v g = g\<lparr>velocity := v\<rparr>"

text \<open>Modelled from the spec: \<^verbatim>\<open>GameObject::Rotate\<close> adds to the orientation only.\<close>

definition GameObject_Rotate :: "vec3 \<Rightarrow> GameObject \<Rightarrow> GameObject" where
  "GameObject_Rotate r g = g\<lparr>orientation := vec3_add (orientation g) r\<rparr>"

text \<open>
  Modelled from the spec: \<^verbatim>\<open>GameObject::CalculateAABB\<close> overwrites the AABB with the
  bounds at the current orientation and position.
\<close>

definition GameObject_CalculateAABB :: "GameObject \<Rightarrow> GameObject" where
  "GameObject_CalculateAABB g = g\<lparr>aabb := bounds g (orientation g) (position g)\<rparr>"

text \<open>
  Modelled from the spec: \<^verbatim>\<open>GameObject::Update\<close> integrates the body over \<open>dt\<close>: the
  position advances by the velocity times \<open>dt\<close>, the velocity stays.
\<close>

definition GameObject_Update :: "real \<Rightarrow> GameObject \<Rightarrow> GameObject" where
  "GameObject_Update dt g = g\<lparr>position := vec3_add (position g) (vec3_scale (velocity g) dt)\<rparr>"

text \<open>
  The globals \<^verbatim>\<open>obj1\<close> (the stationary body) and \<^verbatim>\<open>obj2\<close> (the moving body), with the
  history of the calls \<open>update\<close> has made, in the order it made them.
\<close>

datatype obj = Obj1 | Obj2

datatype call =
    CallSetVelocity obj vec3
  | CallRotate obj vec3
  | CallCalculateAABB obj
  | CallSweptAABB AABB AABB vec3
  | CallUpdate obj real

record world =
  obj1 :: GameObject
  obj2 :: GameObject
  calls :: "call list"

definition apply_obj :: "obj \<Rightarrow> (GameObject \<Rightarrow> GameObject) \<Rightarrow> world \<Rightarrow> world" where
  "apply_obj ob f w = (case ob of Obj1 \<Rightarrow> w\<lparr>obj1 := f (obj1 w)\<rparr> | Obj2 \<Rightarrow> w\<lparr>obj2 := f (obj2 w)\<rparr>)"

definition SetVelocity :: "obj \<Rightarrow> vec3 \<Rightarrow> world \<Rightarrow> world" where
  "SetVelocity ob v w =
     (apply_obj ob (GameObject_SetVelocity v) w)\<lparr>calls := calls w @ [CallSetVelocity ob v]\<rparr>"

definition Rotate :: "obj \<Rightarrow> vec3 \<Rightarrow> world \<Rightarrow> world" where
  "Rotate ob r w = (apply_obj ob (GameObject_Rotate r) w)\<lparr>calls := calls w @ [CallRotate ob r]\<rparr>"

definition CalculateAABB :: "obj \<Rightarrow> world \<Rightarrow> world" where
  "CalculateAABB ob w =
     (apply_obj ob GameObject_CalculateAABB w)\<lparr>calls := calls w @ [CallCalculateAABB ob]\<rparr>"

definition Update :: "obj \<Rightarrow> real \<Rightarrow> world \<Rightarrow> world" where
  "Update ob dt w = (apply_obj ob (GameObject_Update dt) w)\<lparr>calls := calls w @ [CallUpdate ob dt]\<rparr>"

definition called_SweptAABB :: "AABB \<Rightarrow> AABB \<Rightarrow> vec3 \<Rightarrow> world \<Rightarrow> world" where
  "called_SweptAABB box1 box2 vel1 w = w\<lparr>calls := calls w @ [CallSweptAABB box1 box2 vel1]\<rparr>"

subsection \<open>update\<close>

text \<open>\<^verbatim>\<open>glm::radians\<close>.\<close>

definition radians :: "real \<Rightarrow> real" where
  "radians d = d * pi / 180"

text \<open>
  Main.cpp 272-290: the boundary check on \<^verbatim>\<open>obj2\<close>. \<^verbatim>\<open>tempPos\<close> is read once; each
  \<^verbatim>\<open>tempVel\<close> is read when its test succeeds.
\<close>

definition boundary_check :: "world \<Rightarrow> world" where
  "boundary_check w0 =
     (let tempPos = position (obj2 w0);
          w1 = (if \<bar>vec_x tempPos\<bar> > 0.9 then
                  (let tempVel = velocity (obj2 w0)
                   in SetVelocity Obj2 (vec3 (- 1 * vec_x tempVel) (vec_y tempVel) (vec_z tempVel)) w0)
                else w0);
          w2 = (if \<bar>vec_y tempPos\<bar> > 0.8 then
                  (let tempVel = velocity (obj2 w1)
                   in SetVelocity Obj2 (vec3 (vec_x tempVel) (- 1 * vec_y tempVel) (vec_z tempVel)) w1)
                else w1);
          w3 = (if \<bar>vec_z tempPos\<bar> > 1.0 then
                  (let tempVel = velocity (obj2 w2)
                   in SetVelocity Obj2 (vec3 (vec_x tempVel) (vec_y tempVel) (- 1 * vec_z tempVel)) w2)
                else w2)
      in w3)"

text \<open>
  Main.cpp 320-335: the local \<^verbatim>\<open>velocity\<close>, bounced on each axis whose normal component
  is larger than 0.0001 in magnitude. \<^verbatim>\<open>abs\<close> is read as the absolute value of a float.
\<close>

definition bounce :: "normal3 \<Rightarrow> vec3 \<Rightarrow> vec3" where
  "bounce normal velocity0 =
     (case normal of (normalx, normaly, normalz) \<Rightarrow>
        (let v1 = (if \<bar>normalx\<bar> > 0.0001 then velocity0\<lparr>vec_x := vec_x velocity0 * (- 1)\<rparr> else velocity0);
             v2 = (if \<bar>normaly\<bar> > 0.0001 then v1\<lparr>vec_y := vec_y v1 * (- 1)\<rparr> else v1);
             v3 = (if \<bar>normalz\<bar> > 0.0001 then v2\<lparr>vec_z := vec_z v2 * (- 1)\<rparr> else v2)
         in v3))"

text \<open>
  \<^verbatim>\<open>void update(float dt)\<close> (Main.cpp 269-358). \<open>indeterminate\<close> stands for the values the
  locals \<^verbatim>\<open>normalx\<close>, \<^verbatim>\<open>normaly\<close>, \<^verbatim>\<open>normalz\<close> hold before the call of
  \<^verbatim>\<open>SweptAABB\<close>: the source declares them without an initialiser. The two matrix products
  at the end feed the renderer only and are left out.
\<close>

definition update :: "normal3 \<Rightarrow> real \<Rightarrow> world \<Rightarrow> fault + world" where
  "update indeterminate dt w0 =
     (let w3 = boundary_check w0;
          w4 = Rotate Obj1 (vec3 (radians 1.0) (radians 1.0) (radians 0.0)) w3;
          w5 = Rotate Obj2 (vec3 (radians 1.0) (radians 1.0) (radians 0.0)) w4;
          w6 = CalculateAABB Obj1 w5;
          w7 = CalculateAABB Obj2 w6;
          w8 = called_SweptAABB (aabb (obj2 w7)) (aabb (obj1 w7)) (vec3_scale (velocity (obj2 w7)) dt) w7
      in case SweptAABB (aabb (obj2 w7)) (aabb (obj1 w7)) (vec3_scale (velocity (obj2 w7)) dt)
                indeterminate of
           Inl e \<Rightarrow> Inl e
         | Inr (collisionTime, normal) \<Rightarrow>
             (case collisionTime of
                Fin t \<Rightarrow>
                  (let remainingTime = 1.0 - t
                   in if remainingTime \<ge> 0.0 then
                        (let velocity1 = bounce normal (velocity (obj2 w8));
                             w9 = Update Obj1 (t * dt) w8;
                             w10 = Update Obj2 (t * dt) w9;
                             w11 = SetVelocity Obj2 velocity1 w10;
                             w12 = Update Obj1 (remainingTime * dt) w11;
                             w13 = Update Obj2 (remainingTime * dt) w12
                         in Inr w13)
                      else
                        (let w9 = Update Obj1 dt w8;
                             w10 = Update Obj2 dt w9
                         in Inr w10))
              | _ \<Rightarrow> Inl NonFiniteTime))"

text \<open>
  For the statements about \<open>update\<close>: the scene as it is when \<^verbatim>\<open>SweptAABB\<close> is called at
  Main.cpp 309 (\<open>w7\<close> of \<open>update\<close>), the calls the boundary check makes for a position and
  a velocity of \<^verbatim>\<open>obj2\<close>, and \<^verbatim>\<open>glm::length\<close>, the norm of a vector.
\<close>

definition before_sweep :: "world \<Rightarrow> world" where
  "before_sweep w0 =
     CalculateAABB Obj2
       (CalculateAABB Obj1
          (Rotate Obj2 (vec3 (radians 1.0) (radians 1.0) (radians 0.0))
             (Rotate Obj1 (vec3 (radians 1.0) (radians 1.0) (radians 0.0))
                (boundary_check w0))))"

definition boundary_calls :: "vec3 \<Rightarrow> vec3 \<Rightarrow> call list" where
  "boundary_calls pos vel =
     (let vx1 = (if \<bar>vec_x pos\<bar> > 0.9 then - vec_x vel else vec_x vel);
          vy1 = (if \<bar>vec_y pos\<bar> > 0.8 then - vec_y vel else vec_y vel)
      in (if \<bar>vec_x pos\<bar> > 0.9 then [CallSetVelocity Obj2 (vec3 (- vec_x vel) (vec_y vel) (vec_z vel))]
          else [])
       @ (if \<bar>vec_y pos\<bar> > 0.8 then [CallSetVelocity Obj2 (vec3 vx1 (- vec_y vel) (vec_z vel))]
          else [])
       @ (if \<bar>vec_z pos\<bar> > 1.0 then [CallSetVelocity Obj2 (vec3 vx1 vy1 (- vec_z vel))]
          else []))"

definition vec3_length :: "vec3 \<Rightarrow> real" where
  "vec3_length v = sqrt (vec_x v * vec_x v + vec_y v * vec_y v + vec_z v * vec_z v)"

text \<open>
  For the scenarios: a body at a position with a velocity, not rotated, whose bounds are the
  box of half-extent 0.1 around its position at every orientation; and the scene of two
  bodies before any call.
\<close>

definition body_at :: "vec3 \<Rightarrow> vec3 \<Rightarrow> GameObject" where
  "body_at pos vel =
     \<lparr>position = pos, velocity = vel, orientation = vec3 0 0 0,
      bounds = (\<lambda>rot p. box_at p 0.1), aabb = box_at pos 0.1\<rparr>"

definition scene_of :: "GameObject \<Rightarrow> GameObject \<Rightarrow> world" where
  "scene_of g1 g2 = \<lparr>obj1 = g1, obj2 = g2, calls = []\<rparr>"

subsection \<open>checkTime\<close>

text \<open>
  The globals of Main.cpp 50-56 with the two bodies. \<^verbatim>\<open>physicsStep\<close> is never assigned
  after its initialiser.
\<close>

record globals =
  frame :: int
  time :: real
  timebase :: real
  accumulator :: real
  fps :: int
  FPSTime :: real
  scene :: world

definition physicsStep :: real where
  "physicsStep = 0.012"

text \<open>The conversion of a \<^verbatim>\<open>double\<close> to \<^verbatim>\<open>int\<close>: the fraction is dropped.\<close>

definition to_int :: "real \<Rightarrow> int" where
  "to_int r = (if r \<ge> 0 then \<lfloor>r\<rfloor> else \<lceil>r\<rceil>)"

text \<open>
  Main.cpp 401-406: the loop. \<open>indet k\<close> stands for the indeterminate values the locals of
  the \<open>k\<close>-th call of \<open>update\<close> in this pass start with.
\<close>

function checkTime_loop :: "(nat \<Rightarrow> normal3) \<Rightarrow> nat \<Rightarrow> real \<Rightarrow> world \<Rightarrow> fault + (real \<times> world)" where
  "checkTime_loop indet k acc w =
     (if acc \<ge> physicsStep then
        (case update (indet k) physicsStep w of
           Inl e \<Rightarrow> Inl e
         | Inr w' \<Rightarrow> checkTime_loop indet (Suc k) (acc - physicsStep) w')
      else Inr (acc, w))"
  by pat_completeness auto
termination
proof (relation "measure (\<lambda>(indet, k, acc, w). nat \<lfloor>acc / physicsStep\<rfloor>)")
  show "wf (measure (\<lambda>(indet, k, acc, w). nat \<lfloor>acc / physicsStep\<rfloor>))"
    by simp
next
  fix indet :: "nat \<Rightarrow> normal3" and k :: nat and acc :: real and w w' :: world
  assume a: "physicsStep \<le> acc"
  have "(acc - physicsStep) / physicsStep = acc / physicsStep - 1"
    by (simp add: physicsStep_def diff_divide_distrib)
  moreover have "1 \<le> acc / physicsStep"
    using a by (simp add: physicsStep_def)
  then have "1 \<le> \<lfloor>acc / physicsStep\<rfloor>"
    by (simp add: le_floor_iff)
  ultimately show "((indet, Suc k, acc - physicsStep, w'), (indet, k, acc, w))
      \<in> measure (\<lambda>(indet, k, acc, w). nat \<lfloor>acc / physicsStep\<rfloor>)"
    by simp
qed

declare checkTime_loop.simps [simp del]

text \<open>
  \<^verbatim>\<open>void checkTime()\<close> (Main.cpp 361-408). \<open>now\<close> is what \<^verbatim>\<open>glfwGetTime()\<close> returns.
  The window title, which shows \<^verbatim>\<open>fps\<close>, is not part of the state.
\<close>

definition checkTime :: "real \<Rightarrow> (nat \<Rightarrow> normal3) \<Rightarrow> globals \<Rightarrow> fault + globals" where
  "checkTime now indet g0 =
     (let g1 = g0\<lparr>time := now\<rparr>;
          dt = time g1 - timebase g1
      in if dt > physicsStep then
           (let g2 = (if time g1 - FPSTime g1 > 1.0 then
                        g1\<lparr>fps := to_int (real_of_int (frame g1) / (time g1 - FPSTime g1)),
                           FPSTime := time g1,
                           frame := 0\<rparr>
                      else g1);
                g3 = g2\<lparr>timebase := time g2\<rparr>;
                dt = (if dt > 0.25 then 0.25 else dt);
                g4 = g3\<lparr>accumulator := accumulator g3 + dt\<rparr>
            in case checkTime_loop indet 0 (accumulator g4) (scene g4) of
                 Inl e \<Rightarrow> Inl e
               | Inr (acc, w) \<Rightarrow> Inr (g4\<lparr>accumulator := acc, scene := w\<rparr>))
         else Inr g1)"

text \<open>
  \<open>n\<close> calls of \<^verbatim>\<open>update(physicsStep)\<close> one after the other, the first with the
  indeterminate values \<open>indet k\<close>.
\<close>

fun ticks :: "(nat \<Rightarrow> normal3) \<Rightarrow> nat \<Rightarrow> nat \<Rightarrow> world \<Rightarrow> fault + world" where
  "ticks indet k 0 w = Inr w"
| "ticks indet k (Suc n) w =
     (case update (indet k) physicsStep w of
        Inl e \<Rightarrow> Inl e
      | Inr w' \<Rightarrow> ticks indet (Suc k) n w')"

text \<open>
  \<^verbatim>\<open>main\<close> (Main.cpp 412-460): the globals as initialised, the two calls of
  \<^verbatim>\<open>CalculateAABB\<close> before the loop, and then, for each frame, one pass of
  \<^verbatim>\<open>checkTime\<close> followed by \<^verbatim>\<open>frame++\<close>. \<open>w0\<close> is the scene \<^verbatim>\<open>init()\<close> leaves.
\<close>

definition main_start :: "world \<Rightarrow> globals" where
  "main_start w0 =
     \<lparr>frame = 0, time = 0, timebase = 0, accumulator = 0.0, fps = 0, FPSTime = 0.0,
      scene = CalculateAABB Obj2 (CalculateAABB Obj1 w0)\<rparr>"

inductive reachable :: "globals \<Rightarrow> bool" where
  start: "reachable (main_start w0)"
| pass: "reachable g \<Longrightarrow> checkTime now indet g = Inr g' \<Longrightarrow> reachable (g'\<lparr>frame := frame g' + 1\<rparr>)"


section \<open>Properties of SweptAABB\<close>

subsection \<open>Helper facts\<close>

lemma vec3_sel [simp]:
  "vec_x (vec3 a b c) = a" "vec_y (vec3 a b c) = b" "vec_z (vec3 a b c) = c"
  by (simp_all add: vec3_def)

lemma EntryExitTime_eq:
  "EntryExitTime vel dE dX ext =
     Inr (if vel = 0 then (if max \<bar>dE\<bar> \<bar>dX\<bar> > ext then Fin 2 else NegInf, PosInf)
          else (Fin (dE / vel), Fin (dX / vel)))"
  by (simp add: EntryExitTime_def divide_checked_def)

lemma Times_defined:
  "\<exists>xE xX. xTimes box1 box2 vel1 = Inr (xE, xX)"
  "\<exists>yE yX. yTimes box1 box2 vel1 = Inr (yE, yX)"
  "\<exists>zE zX. zTimes box1 box2 vel1 = Inr (zE, zX)"
  by (simp_all add: xTimes_def yTimes_def zTimes_def EntryExitTime_eq)

lemma SweptAABB_eq:
  assumes "xTimes box1 box2 vel1 = Inr (xE, xX)"
    and "yTimes box1 box2 vel1 = Inr (yE, yX)"
    and "zTimes box1 box2 vel1 = Inr (zE, zX)"
  shows "SweptAABB box1 box2 vel1 normal =
     Inr (SweptAABB_decide xE yE zE xX yX zX (xDistanceEntry box1 box2 vel1)
            (yDistanceEntry box1 box2 vel1) (zDistanceEntry box1 box2 vel1) normal)"
  using assms by (simp add: SweptAABB_def)

lemma SweptAABB_defined: "\<exists>r. SweptAABB box1 box2 vel1 normal = Inr r"
proof -
  obtain xE xX yE yX zE zX where
    "xTimes box1 box2 vel1 = Inr (xE, xX)" "yTimes box1 box2 vel1 = Inr (yE, yX)"
    "zTimes box1 box2 vel1 = Inr (zE, zX)"
    using Times_defined [of box1 box2 vel1] by auto
  then show ?thesis by (blast intro: SweptAABB_eq)
qed

lemma decide_no_collision_iff:
  "SweptAABB_decide xE yE zE xX yX zX dx dy dz n = (Fin 2, (0, 0, 0)) \<longleftrightarrow>
     no_collision_test xE yE zE xX yX zX"
proof -
  have "max (max xE yE) zE \<noteq> Fin 2" if "\<not> xE > Fin 1" "\<not> yE > Fin 1" "\<not> zE > Fin 1"
  proof -
    have "max (max xE yE) zE \<le> Fin 1" using that by (simp add: not_less)
    moreover have "\<not> Fin 2 \<le> Fin 1" by simp
    ultimately show ?thesis by metis
  qed
  then show ?thesis
    by (auto simp: SweptAABB_decide_def Let_def)
qed

lemma decide_collision_time:
  assumes "\<not> no_collision_test xE yE zE xX yX zX"
  shows "\<exists>t. max (max xE yE) zE = Fin t \<and> 0 \<le> t \<and> t \<le> 1"
proof -
  have le: "max (max xE yE) zE \<le> Fin 1" using assms by (simp add: not_less)
  have "Fin 0 \<le> xE \<or> Fin 0 \<le> yE \<or> Fin 0 \<le> zE" using assms by (auto simp: not_less)
  then have ge: "Fin 0 \<le> max (max xE yE) zE" by (auto simp: le_max_iff_disj)
  show ?thesis using le ge by (cases "max (max xE yE) zE") auto
qed

lemma decide_collision:
  assumes "\<not> no_collision_test xE yE zE xX yX zX"
  shows "SweptAABB_decide xE yE zE xX yX zX dx dy dz n =
     (max (max xE yE) zE,
            if xE > yE \<and> xE > zE then
              (if dx < 0 then (1, 0, 0) else (- 1, 0, 0))
            else if yE > xE \<and> yE > zE then
              (if dy < 0 then (0, 1, 0) else (0, - 1, 0))
            else if zE > xE \<and> zE > yE then
              (if dz < 0 then (0, 0, 1) else (0, 0, - 1))
            else n)"
  using assms unfolding SweptAABB_decide_def Let_def by (simp only: if_False)

lemma xTimes_eq:
  "xTimes box1 box2 vel1 =
     Inr (if vec_x vel1 = 0 then
            (if max \<bar>xDistanceEntry box1 box2 vel1\<bar> \<bar>xDistanceExit box1 box2 vel1\<bar>
                  > xExtents box1 box2 then Fin 2 else NegInf, PosInf)
          else (Fin (xDistanceEntry box1 box2 vel1 / vec_x vel1),
                Fin (xDistanceExit box1 box2 vel1 / vec_x vel1)))"
  by (simp add: xTimes_def EntryExitTime_eq)

lemma yTimes_eq:
  "yTimes box1 box2 vel1 =
     Inr (if vec_y vel1 = 0 then
            (if max \<bar>yDistanceEntry box1 box2 vel1\<bar> \<bar>yDistanceExit box1 box2 vel1\<bar>
                  > yExtents box1 box2 then Fin 2 else NegInf, PosInf)
          else (Fin (yDistanceEntry box1 box2 vel1 / vec_y vel1),
                Fin (yDistanceExit box1 box2 vel1 / vec_y vel1)))"
  by (simp add: yTimes_def EntryExitTime_eq)

lemma zTimes_eq:
  "zTimes box1 box2 vel1 =
     Inr (if vec_z vel1 = 0 then
            (if max \<bar>zDistanceEntry box1 box2 vel1\<bar> \<bar>zDistanceExit box1 box2 vel1\<bar>
                  > zExtents box1 box2 then Fin 2 else NegInf, PosInf)
          else (Fin (zDistanceEntry box1 box2 vel1 / vec_z vel1),
                Fin (zDistanceExit box1 box2 vel1 / vec_z vel1)))"
  by (simp add: zTimes_def EntryExitTime_eq)

lemmas Distance_defs =
  xDistanceEntry_def yDistanceEntry_def zDistanceEntry_def
  xDistanceExit_def yDistanceExit_def zDistanceExit_def
  DistanceEntry_def DistanceExit_def

lemma decide_entry_above_one:
  assumes "xE > Fin 1 \<or> yE > Fin 1 \<or> zE > Fin 1"
  shows "SweptAABB_decide xE yE zE xX yX zX dx dy dz n = (Fin 2, 0, 0, 0)"
  using assms decide_no_collision_iff [of xE yE zE xX yX zX dx dy dz n] by blast

lemmas Times_eqs = xTimes_eq yTimes_eq zTimes_eq

lemma scenario_tunnel_times:
  "xTimes (box_at (vec3 0 0 0) 0.1) (box_at (vec3 2 0 0) 0.1) (vec3 5 0 0) = Inr (Fin 0.36, Fin 0.44)"
  "yTimes (box_at (vec3 0 0 0) 0.1) (box_at (vec3 2 0 0) 0.1) (vec3 5 0 0) = Inr (NegInf, PosInf)"
  "zTimes (box_at (vec3 0 0 0) 0.1) (box_at (vec3 2 0 0) 0.1) (vec3 5 0 0) = Inr (NegInf, PosInf)"
  by (simp_all add: Times_eqs Distance_defs box_at_def)

lemma scenario_tie_times:
  "xTimes \<lparr>box_min = vec3 0 0 0, box_max = vec3 1 1 1\<rparr> \<lparr>box_min = vec3 2 2 0, box_max = vec3 3 3 1\<rparr>
     (vec3 2 2 0) = Inr (Fin 0.5, Fin 1.5)"
  "yTimes \<lparr>box_min = vec3 0 0 0, box_max = vec3 1 1 1\<rparr> \<lparr>box_min = vec3 2 2 0, box_max = vec3 3 3 1\<rparr>
     (vec3 2 2 0) = Inr (Fin 0.5, Fin 1.5)"
  "zTimes \<lparr>box_min = vec3 0 0 0, box_max = vec3 1 1 1\<rparr> \<lparr>box_min = vec3 2 2 0, box_max = vec3 3 3 1\<rparr>
     (vec3 2 2 0) = Inr (NegInf, PosInf)"
  by (simp_all add: Times_eqs Distance_defs)

lemma scenario_apart_times:
  "xTimes \<lparr>box_min = vec3 0 0 0, box_max = vec3 1 1 1\<rparr> \<lparr>box_min = vec3 2 2 5, box_max = vec3 3 3 6\<rparr>
     (vec3 2 2 0) = Inr (Fin 0.5, Fin 1.5)"
  "yTimes \<lparr>box_min = vec3 0 0 0, box_max = vec3 1 1 1\<rparr> \<lparr>box_min = vec3 2 2 5, box_max = vec3 3 3 6\<rparr>
     (vec3 2 2 0) = Inr (Fin 0.5, Fin 1.5)"
  "zTimes \<lparr>box_min = vec3 0 0 0, box_max = vec3 1 1 1\<rparr> \<lparr>box_min = vec3 2 2 5, box_max = vec3 3 3 6\<rparr>
     (vec3 2 2 0) = Inr (Fin 2, PosInf)"
  by (simp_all add: Times_eqs Distance_defs)

lemma normal_arm_iff:
  "normal_arm xE yE zE = Some AxisX \<longleftrightarrow> xE > yE \<and> xE > zE"
  "normal_arm xE yE zE = Some AxisY \<longleftrightarrow> yE > xE \<and> yE > zE"
  "normal_arm xE yE zE = Some AxisZ \<longleftrightarrow> zE > xE \<and> zE > yE"
  "normal_arm xE yE zE = None \<longleftrightarrow>
     \<not> (xE > yE \<and> xE > zE) \<and> \<not> (yE > xE \<and> yE > zE) \<and> \<not> (zE > xE \<and> zE > yE)"
  by (auto simp: normal_arm_def)

subsection \<open>The claims about SweptAABB\<close>

text \<open>
  C1, as the code has it. Whenever \<open>SweptAABB\<close> takes its collision branch (the test at
  Main.cpp 197 fails) and one axis's entry time is strictly greater than the other two, the
  returned time is a finite number in [0, 1], equal to the largest entry time, and the
  returned normal has one component of magnitude 1 and two components 0. The component of
  magnitude 1 is the one of the winning axis. When that axis's entry distance is not zero,
  the component is the negative of the sign of the entry distance. The source tests the
  entry distance with \<^verbatim>\<open>< 0.0f\<close>: the component is 1 when the test succeeds and -1 when
  it does not.
\<close>

theorem SweptAABB_collision_time_and_normal:
  assumes "xTimes box1 box2 vel1 = Inr (xE, xX)"
    and "yTimes box1 box2 vel1 = Inr (yE, yX)"
    and "zTimes box1 box2 vel1 = Inr (zE, zX)"
    and "\<not> no_collision_test xE yE zE xX yX zX"
    and "xE > yE \<and> xE > zE \<or> yE > xE \<and> yE > zE \<or> zE > xE \<and> zE > yE"
  shows "\<exists>t nx ny nz.
           SweptAABB box1 box2 vel1 normal = Inr (Fin t, nx, ny, nz)
         \<and> Fin t = max (max xE yE) zE \<and> 0 \<le> t \<and> t \<le> 1
         \<and> (\<bar>nx\<bar> = 1 \<and> ny = 0 \<and> nz = 0 \<or> nx = 0 \<and> \<bar>ny\<bar> = 1 \<and> nz = 0
              \<or> nx = 0 \<and> ny = 0 \<and> \<bar>nz\<bar> = 1)
         \<and> (xE > yE \<and> xE > zE \<longrightarrow>
               (nx, ny, nz) = (if xDistanceEntry box1 box2 vel1 < 0 then 1 else - 1, 0, 0))
         \<and> (yE > xE \<and> yE > zE \<longrightarrow>
               (nx, ny, nz) = (0, if yDistanceEntry box1 box2 vel1 < 0 then 1 else - 1, 0))
         \<and> (zE > xE \<and> zE > yE \<longrightarrow>
               (nx, ny, nz) = (0, 0, if zDistanceEntry box1 box2 vel1 < 0 then 1 else - 1))
         \<and> (xE > yE \<and> xE > zE \<and> xDistanceEntry box1 box2 vel1 \<noteq> 0 \<longrightarrow>
               nx = - sgn (xDistanceEntry box1 box2 vel1))
         \<and> (yE > xE \<and> yE > zE \<and> yDistanceEntry box1 box2 vel1 \<noteq> 0 \<longrightarrow>
               ny = - sgn (yDistanceEntry box1 box2 vel1))
         \<and> (zE > xE \<and> zE > yE \<and> zDistanceEntry box1 box2 vel1 \<noteq> 0 \<longrightarrow>
               nz = - sgn (zDistanceEntry box1 box2 vel1))"
proof -
  obtain t where t: "max (max xE yE) zE = Fin t" "0 \<le> t" "t \<le> 1"
    using decide_collision_time [OF assms(4)] by blast
  note eq = SweptAABB_eq [OF assms(1-3), of normal]
  note dec = decide_collision [OF assms(4)]
  consider (x) "xE > yE \<and> xE > zE" | (y) "yE > xE \<and> yE > zE" | (z) "zE > xE \<and> zE > yE"
    using assms(5) by blast
  then show ?thesis
  proof cases
    case x
    then have "\<not> (yE > xE \<and> yE > zE)" "\<not> (zE > xE \<and> zE > yE)" by auto
    with x t show ?thesis unfolding eq dec by (auto simp: sgn_if)
  next
    case y
    then have "\<not> (xE > yE \<and> xE > zE)" "\<not> (zE > xE \<and> zE > yE)" by auto
    with y t show ?thesis unfolding eq dec by (auto simp: sgn_if)
  next
    case z
    then have "\<not> (xE > yE \<and> xE > zE)" "\<not> (yE > xE \<and> yE > zE)" by auto
    with z t show ?thesis unfolding eq dec by (auto simp: sgn_if)
  qed
qed

theorem SweptAABB_collision_time_and_normal_witness:
  "xTimes (box_at (vec3 0 0 0) 0.1) (box_at (vec3 2 0 0) 0.1) (vec3 5 0 0) = Inr (Fin 0.36, Fin 0.44)
   \<and> yTimes (box_at (vec3 0 0 0) 0.1) (box_at (vec3 2 0 0) 0.1) (vec3 5 0 0) = Inr (NegInf, PosInf)
   \<and> zTimes (box_at (vec3 0 0 0) 0.1) (box_at (vec3 2 0 0) 0.1) (vec3 5 0 0) = Inr (NegInf, PosInf)
   \<and> \<not> no_collision_test (Fin 0.36) NegInf NegInf (Fin 0.44) PosInf PosInf
   \<and> Fin 0.36 > NegInf
   \<and> xDistanceEntry (box_at (vec3 0 0 0) 0.1) (box_at (vec3 2 0 0) 0.1) (vec3 5 0 0) = 1.8
   \<and> (\<exists>t. SweptAABB (box_at (vec3 0 0 0) 0.1) (box_at (vec3 2 0 0) 0.1) (vec3 5 0 0) (7, 8, 9)
            = Inr (Fin t, - 1, 0, 0) \<and> 0 \<le> t \<and> t \<le> 1)"
proof -
  have c: "\<not> no_collision_test (Fin 0.36) NegInf NegInf (Fin 0.44) PosInf PosInf"
    by simp
  have w: "Fin 0.36 > NegInf \<and> Fin 0.36 > NegInf \<or> NegInf > Fin 0.36 \<and> NegInf > NegInf
             \<or> NegInf > Fin 0.36 \<and> NegInf > NegInf"
    by simp
  have d: "xDistanceEntry (box_at (vec3 0 0 0) 0.1) (box_at (vec3 2 0 0) 0.1) (vec3 5 0 0) = 1.8"
    by (simp add: Distance_defs box_at_def)
  from SweptAABB_collision_time_and_normal [OF scenario_tunnel_times c w, of "(7, 8, 9)"]
  have "\<exists>t. SweptAABB (box_at (vec3 0 0 0) 0.1) (box_at (vec3 2 0 0) 0.1) (vec3 5 0 0) (7, 8, 9)
            = Inr (Fin t, - 1, 0, 0) \<and> 0 \<le> t \<and> t \<le> 1"
    by (auto simp: d)
  with c d scenario_tunnel_times show ?thesis by simp
qed

text \<open>
  The claim as it was written fails where the winning axis's entry distance is exactly
  zero: a box that touches the other box on its x side and moves in the negative x
  direction collides at time 0 with the normal (-1, 0, 0), and -1 is not the negative of the
  sign of 0.
\<close>

theorem zero_entry_distance_normal:
  "xTimes \<lparr>box_min = vec3 1 0 0, box_max = vec3 2 1 1\<rparr> \<lparr>box_min = vec3 0 0 0, box_max = vec3 1 1 1\<rparr>
     (vec3 (- 1) 0 0) = Inr (Fin 0, Fin 2)
   \<and> yTimes \<lparr>box_min = vec3 1 0 0, box_max = vec3 2 1 1\<rparr> \<lparr>box_min = vec3 0 0 0, box_max = vec3 1 1 1\<rparr>
     (vec3 (- 1) 0 0) = Inr (NegInf, PosInf)
   \<and> zTimes \<lparr>box_min = vec3 1 0 0, box_max = vec3 2 1 1\<rparr> \<lparr>box_min = vec3 0 0 0, box_max = vec3 1 1 1\<rparr>
     (vec3 (- 1) 0 0) = Inr (NegInf, PosInf)
   \<and> \<not> no_collision_test (Fin 0) NegInf NegInf (Fin 2) PosInf PosInf
   \<and> Fin 0 > NegInf
   \<and> xDistanceEntry \<lparr>box_min = vec3 1 0 0, box_max = vec3 2 1 1\<rparr>
        \<lparr>box_min = vec3 0 0 0, box_max = vec3 1 1 1\<rparr> (vec3 (- 1) 0 0) = 0
   \<and> SweptAABB \<lparr>box_min = vec3 1 0 0, box_max = vec3 2 1 1\<rparr>
        \<lparr>box_min = vec3 0 0 0, box_max = vec3 1 1 1\<rparr> (vec3 (- 1) 0 0) (7, 8, 9)
       = Inr (Fin 0, - 1, 0, 0)
   \<and> (- 1 :: real) \<noteq> - sgn (xDistanceEntry \<lparr>box_min = vec3 1 0 0, box_max = vec3 2 1 1\<rparr>
        \<lparr>box_min = vec3 0 0 0, box_max = vec3 1 1 1\<rparr> (vec3 (- 1) 0 0))"
  by (simp add: SweptAABB_def Times_eqs Distance_defs SweptAABB_decide_def Let_def)

text \<open>
  C2. \<open>SweptAABB\<close> returns the time 2.0 with the normal (0, 0, 0) if and only if the
  largest entry time exceeds the smallest exit time, or all three entry times are negative,
  or some entry time exceeds 1.0; otherwise it returns the largest entry time.
\<close>

theorem SweptAABB_no_collision_iff:
  assumes "xTimes box1 box2 vel1 = Inr (xE, xX)"
    and "yTimes box1 box2 vel1 = Inr (yE, yX)"
    and "zTimes box1 box2 vel1 = Inr (zE, zX)"
  shows "(SweptAABB box1 box2 vel1 normal = Inr (Fin 2, 0, 0, 0)
            \<longleftrightarrow> no_collision_test xE yE zE xX yX zX)
       \<and> (\<not> no_collision_test xE yE zE xX yX zX \<longrightarrow>
            (\<exists>normal'. SweptAABB box1 box2 vel1 normal = Inr (max (max xE yE) zE, normal')))"
proof -
  note eq = SweptAABB_eq [OF assms, of normal]
  have "SweptAABB box1 box2 vel1 normal = Inr (Fin 2, 0, 0, 0)
            \<longleftrightarrow> no_collision_test xE yE zE xX yX zX"
    unfolding eq using decide_no_collision_iff by simp
  moreover have "\<exists>normal'. SweptAABB box1 box2 vel1 normal = Inr (max (max xE yE) zE, normal')"
    if "\<not> no_collision_test xE yE zE xX yX zX"
    unfolding eq decide_collision [OF that] by blast
  ultimately show ?thesis by blast
qed

theorem SweptAABB_no_collision_iff_witness:
  "\<not> no_collision_test (Fin 0.36) NegInf NegInf (Fin 0.44) PosInf PosInf
   \<and> SweptAABB (box_at (vec3 0 0 0) 0.1) (box_at (vec3 2 0 0) 0.1) (vec3 5 0 0) (0, 0, 0)
       \<noteq> Inr (Fin 2, 0, 0, 0)
   \<and> (\<exists>normal'. SweptAABB (box_at (vec3 0 0 0) 0.1) (box_at (vec3 2 0 0) 0.1) (vec3 5 0 0) (0, 0, 0)
         = Inr (Fin 0.36, normal'))
   \<and> no_collision_test (Fin 0.5) (Fin 0.5) (Fin 2) (Fin 1.5) (Fin 1.5) PosInf
   \<and> SweptAABB \<lparr>box_min = vec3 0 0 0, box_max = vec3 1 1 1\<rparr>
        \<lparr>box_min = vec3 2 2 5, box_max = vec3 3 3 6\<rparr> (vec3 2 2 0) (7, 8, 9) = Inr (Fin 2, 0, 0, 0)"
proof -
  have c: "\<not> no_collision_test (Fin 0.36) NegInf NegInf (Fin 0.44) PosInf PosInf"
    by simp
  have n: "no_collision_test (Fin 0.5) (Fin 0.5) (Fin 2) (Fin 1.5) (Fin 1.5) PosInf"
    by simp
  from SweptAABB_no_collision_iff [OF scenario_tunnel_times, of "(0, 0, 0)"] c
  have 1: "SweptAABB (box_at (vec3 0 0 0) 0.1) (box_at (vec3 2 0 0) 0.1) (vec3 5 0 0) (0, 0, 0)
       \<noteq> Inr (Fin 2, 0, 0, 0)"
    and 2: "\<exists>normal'. SweptAABB (box_at (vec3 0 0 0) 0.1) (box_at (vec3 2 0 0) 0.1) (vec3 5 0 0) (0, 0, 0)
         = Inr (Fin 0.36, normal')"
    by auto
  from SweptAABB_no_collision_iff [OF scenario_apart_times, of "(7, 8, 9)"] n
  have 3: "SweptAABB \<lparr>box_min = vec3 0 0 0, box_max = vec3 1 1 1\<rparr>
        \<lparr>box_min = vec3 2 2 5, box_max = vec3 3 3 6\<rparr> (vec3 2 2 0) (7, 8, 9) = Inr (Fin 2, 0, 0, 0)"
    by blast
  from c n 1 2 3 show ?thesis by blast
qed

text \<open>
  C6. \<open>SweptAABB\<close> never divides by zero: with \<open>divide_checked\<close> failing on a zero divisor,
  it returns a result on every input. On an axis whose displacement component is exactly
  zero the entry time is 2.0 when the larger absolute value of the entry and exit distances
  exceeds the sum of the two boxes' extents, and negative infinity otherwise; the exit time
  is positive infinity. The entry time 2.0 forces the no-collision result. On an axis whose
  component is not zero the two times are the quotients of the distances by the component.
\<close>

theorem SweptAABB_zero_velocity_axis:
  "(\<exists>r. SweptAABB box1 box2 vel1 normal = Inr r)
   \<and> (vec_x vel1 = 0 \<longrightarrow>
        xTimes box1 box2 vel1 =
          Inr (if max \<bar>xDistanceEntry box1 box2 vel1\<bar> \<bar>xDistanceExit box1 box2 vel1\<bar>
                    > xExtents box1 box2 then Fin 2 else NegInf, PosInf))
   \<and> (vec_y vel1 = 0 \<longrightarrow>
        yTimes box1 box2 vel1 =
          Inr (if max \<bar>yDistanceEntry box1 box2 vel1\<bar> \<bar>yDistanceExit box1 box2 vel1\<bar>
                    > yExtents box1 box2 then Fin 2 else NegInf, PosInf))
   \<and> (vec_z vel1 = 0 \<longrightarrow>
        zTimes box1 box2 vel1 =
          Inr (if max \<bar>zDistanceEntry box1 box2 vel1\<bar> \<bar>zDistanceExit box1 box2 vel1\<bar>
                    > zExtents box1 box2 then Fin 2 else NegInf, PosInf))
   \<and> (vec_x vel1 = 0
        \<and> max \<bar>xDistanceEntry box1 box2 vel1\<bar> \<bar>xDistanceExit box1 box2 vel1\<bar> > xExtents box1 box2
        \<or> vec_y vel1 = 0
        \<and> max \<bar>yDistanceEntry box1 box2 vel1\<bar> \<bar>yDistanceExit box1 box2 vel1\<bar> > yExtents box1 box2
        \<or> vec_z vel1 = 0
        \<and> max \<bar>zDistanceEntry box1 box2 vel1\<bar> \<bar>zDistanceExit box1 box2 vel1\<bar> > zExtents box1 box2
       \<longrightarrow> SweptAABB box1 box2 vel1 normal = Inr (Fin 2, 0, 0, 0))
   \<and> (vec_x vel1 \<noteq> 0 \<longrightarrow>
        xTimes box1 box2 vel1 =
          Inr (Fin (xDistanceEntry box1 box2 vel1 / vec_x vel1),
               Fin (xDistanceExit box1 box2 vel1 / vec_x vel1)))
   \<and> (vec_y vel1 \<noteq> 0 \<longrightarrow>
        yTimes box1 box2 vel1 =
          Inr (Fin (yDistanceEntry box1 box2 vel1 / vec_y vel1),
               Fin (yDistanceExit box1 box2 vel1 / vec_y vel1)))
   \<and> (vec_z vel1 \<noteq> 0 \<longrightarrow>
        zTimes box1 box2 vel1 =
          Inr (Fin (zDistanceEntry box1 box2 vel1 / vec_z vel1),
               Fin (zDistanceExit box1 box2 vel1 / vec_z vel1)))"
proof -
  obtain xE xX where x: "xTimes box1 box2 vel1 = Inr (xE, xX)"
    using Times_defined(1) by blast
  obtain yE yX where y: "yTimes box1 box2 vel1 = Inr (yE, yX)"
    using Times_defined(2) by blast
  obtain zE zX where z: "zTimes box1 box2 vel1 = Inr (zE, zX)"
    using Times_defined(3) by blast
  note eq = SweptAABB_eq [OF x y z, of normal]
  have forced: "SweptAABB box1 box2 vel1 normal = Inr (Fin 2, 0, 0, 0)"
    if h: "xE = Fin 2 \<or> yE = Fin 2 \<or> zE = Fin 2"
  proof -
    have "xE > Fin 1 \<or> yE > Fin 1 \<or> zE > Fin 1"
      using h by auto
    from decide_entry_above_one [OF this] show ?thesis
      unfolding eq by simp
  qed
  have fx: "xE = Fin 2" if "vec_x vel1 = 0"
      "max \<bar>xDistanceEntry box1 box2 vel1\<bar> \<bar>xDistanceExit box1 box2 vel1\<bar> > xExtents box1 box2"
    using x that unfolding xTimes_eq by simp
  have fy: "yE = Fin 2" if "vec_y vel1 = 0"
      "max \<bar>yDistanceEntry box1 box2 vel1\<bar> \<bar>yDistanceExit box1 box2 vel1\<bar> > yExtents box1 box2"
    using y that unfolding yTimes_eq by simp
  have fz: "zE = Fin 2" if "vec_z vel1 = 0"
      "max \<bar>zDistanceEntry box1 box2 vel1\<bar> \<bar>zDistanceExit box1 box2 vel1\<bar> > zExtents box1 box2"
    using z that unfolding zTimes_eq by simp
  show ?thesis
    using SweptAABB_defined [of box1 box2 vel1 normal] forced fx fy fz
    by (simp add: xTimes_eq yTimes_eq zTimes_eq)
qed

theorem SweptAABB_zero_velocity_axis_witness:
  "vec_z (vec3 2 2 0) = 0
   \<and> zTimes \<lparr>box_min = vec3 0 0 0, box_max = vec3 1 1 1\<rparr> \<lparr>box_min = vec3 2 2 0, box_max = vec3 3 3 1\<rparr>
       (vec3 2 2 0) = Inr (NegInf, PosInf)
   \<and> zTimes \<lparr>box_min = vec3 0 0 0, box_max = vec3 1 1 1\<rparr> \<lparr>box_min = vec3 2 2 5, box_max = vec3 3 3 6\<rparr>
       (vec3 2 2 0) = Inr (Fin 2, PosInf)
   \<and> SweptAABB \<lparr>box_min = vec3 0 0 0, box_max = vec3 1 1 1\<rparr>
        \<lparr>box_min = vec3 2 2 5, box_max = vec3 3 3 6\<rparr> (vec3 2 2 0) (7, 8, 9) = Inr (Fin 2, 0, 0, 0)
   \<and> vec_x (vec3 2 2 0) \<noteq> 0
   \<and> xTimes \<lparr>box_min = vec3 0 0 0, box_max = vec3 1 1 1\<rparr> \<lparr>box_min = vec3 2 2 0, box_max = vec3 3 3 1\<rparr>
       (vec3 2 2 0) = Inr (Fin 0.5, Fin 1.5)"
  using SweptAABB_zero_velocity_axis
      [of "\<lparr>box_min = vec3 0 0 0, box_max = vec3 1 1 1\<rparr>"
          "\<lparr>box_min = vec3 2 2 0, box_max = vec3 3 3 1\<rparr>" "vec3 2 2 0" "(7, 8, 9)"]
    SweptAABB_zero_velocity_axis
      [of "\<lparr>box_min = vec3 0 0 0, box_max = vec3 1 1 1\<rparr>"
          "\<lparr>box_min = vec3 2 2 5, box_max = vec3 3 3 6\<rparr>" "vec3 2 2 0" "(7, 8, 9)"]
  by (simp add: Distance_defs)

text \<open>
  C4, as the code has it. For two boxes that overlap on every axis (\<open>TestAABB\<close>) and a
  displacement that is zero on every axis, every axis's entry time is negative infinity and
  its exit time positive infinity, the test "all three entry times are negative" fires, and
  \<open>SweptAABB\<close> returns the no-collision value 2.0 with the normal (0, 0, 0). It does not
  report a collision at time 0.
\<close>

theorem SweptAABB_overlapping_at_rest:
  assumes "TestAABB box1 box2"
  shows "SweptAABB box1 box2 (vec3 0 0 0) normal = Inr (Fin 2, 0, 0, 0)
       \<and> xTimes box1 box2 (vec3 0 0 0) = Inr (NegInf, PosInf)
       \<and> yTimes box1 box2 (vec3 0 0 0) = Inr (NegInf, PosInf)
       \<and> zTimes box1 box2 (vec3 0 0 0) = Inr (NegInf, PosInf)"
proof -
  from assms have ov:
    "vec_x (box_min box2) \<le> vec_x (box_max box1)" "vec_x (box_min box1) \<le> vec_x (box_max box2)"
    "vec_y (box_min box2) \<le> vec_y (box_max box1)" "vec_y (box_min box1) \<le> vec_y (box_max box2)"
    "vec_z (box_min box2) \<le> vec_z (box_max box1)" "vec_z (box_min box1) \<le> vec_z (box_max box2)"
    by (auto simp: TestAABB_def split: if_splits)
  have x: "xTimes box1 box2 (vec3 0 0 0) = Inr (NegInf, PosInf)"
    using ov(1,2) by (simp add: xTimes_eq Distance_defs)
  have y: "yTimes box1 box2 (vec3 0 0 0) = Inr (NegInf, PosInf)"
    using ov(3,4) by (simp add: yTimes_eq Distance_defs)
  have z: "zTimes box1 box2 (vec3 0 0 0) = Inr (NegInf, PosInf)"
    using ov(5,6) by (simp add: zTimes_eq Distance_defs)
  have "SweptAABB_decide NegInf NegInf NegInf PosInf PosInf PosInf dx dy dz normal = (Fin 2, 0, 0, 0)"
    for dx dy dz
    by (simp add: decide_no_collision_iff)
  then show ?thesis
    using x y z by (simp add: SweptAABB_eq [OF x y z])
qed

theorem SweptAABB_overlapping_at_rest_witness:
  "TestAABB (box_at (vec3 0 0 0) 1) (box_at (vec3 0.5 0.5 0.5) 1)
   \<and> SweptAABB (box_at (vec3 0 0 0) 1) (box_at (vec3 0.5 0.5 0.5) 1) (vec3 0 0 0) (7, 8, 9)
       = Inr (Fin 2, 0, 0, 0)
   \<and> xTimes (box_at (vec3 0 0 0) 1) (box_at (vec3 0.5 0.5 0.5) 1) (vec3 0 0 0) = Inr (NegInf, PosInf)"
proof -
  have t: "TestAABB (box_at (vec3 0 0 0) 1) (box_at (vec3 0.5 0.5 0.5) 1)"
    by (simp add: TestAABB_def box_at_def)
  from SweptAABB_overlapping_at_rest [OF t, of "(7, 8, 9)"] t show ?thesis
    by simp
qed

text \<open>
  The claim as it was written fails: two overlapping boxes at rest get the value 2.0, which
  is not a time in [0, 1].
\<close>

theorem overlapping_at_rest_not_a_collision:
  "TestAABB (box_at (vec3 0 0 0) 1) (box_at (vec3 0.5 0.5 0.5) 1)
   \<and> SweptAABB (box_at (vec3 0 0 0) 1) (box_at (vec3 0.5 0.5 0.5) 1) (vec3 0 0 0) (0, 0, 0)
       = Inr (Fin 2, 0, 0, 0)
   \<and> \<not> Fin 2 \<le> Fin 1"
  by (simp add: TestAABB_def box_at_def SweptAABB_def Times_eqs Distance_defs
      SweptAABB_decide_def Let_def)

text \<open>
  C3, as the code has it. A box of half-extent 0.1 that is displaced by 5.0 along one axis
  towards a box of half-extent 0.1 whose centre is 2.0 away on that axis, the other axes
  aligned, collides at time (2.0 - 0.2) / 5.0, which is 0.36. The normal points against the
  motion. The six conjuncts are the three axes in their two directions.
\<close>

theorem SweptAABB_tunneling_scenario:
  "SweptAABB (box_at c 0.1) (box_at (vec3_add c (vec3 2 0 0)) 0.1) (vec3 5 0 0) normal
     = Inr (Fin 0.36, - 1, 0, 0)
   \<and> SweptAABB (box_at c 0.1) (box_at (vec3_add c (vec3 (- 2) 0 0)) 0.1) (vec3 (- 5) 0 0) normal
     = Inr (Fin 0.36, 1, 0, 0)
   \<and> SweptAABB (box_at c 0.1) (box_at (vec3_add c (vec3 0 2 0)) 0.1) (vec3 0 5 0) normal
     = Inr (Fin 0.36, 0, - 1, 0)
   \<and> SweptAABB (box_at c 0.1) (box_at (vec3_add c (vec3 0 (- 2) 0)) 0.1) (vec3 0 (- 5) 0) normal
     = Inr (Fin 0.36, 0, 1, 0)
   \<and> SweptAABB (box_at c 0.1) (box_at (vec3_add c (vec3 0 0 2)) 0.1) (vec3 0 0 5) normal
     = Inr (Fin 0.36, 0, 0, - 1)
   \<and> SweptAABB (box_at c 0.1) (box_at (vec3_add c (vec3 0 0 (- 2))) 0.1) (vec3 0 0 (- 5)) normal
     = Inr (Fin 0.36, 0, 0, 1)
   \<and> (0.36 :: real) = (2.0 - 0.2) / 5.0"
  by (simp add: SweptAABB_def xTimes_eq yTimes_eq zTimes_eq Distance_defs box_at_def vec3_add_def
      SweptAABB_decide_def Let_def)

text \<open>
  The claim as it was written fails: the time is 0.36, and 0.38 is 0.02 away from it.
\<close>

theorem tunneling_time_is_not_038:
  "SweptAABB (box_at (vec3 0 0 0) 0.1) (box_at (vec3 2 0 0) 0.1) (vec3 5 0 0) (0, 0, 0)
     = Inr (Fin 0.36, - 1, 0, 0)
   \<and> \<bar>0.38 - 0.36\<bar> = (0.02 :: real)
   \<and> (2.0 - 0.2) / 5.0 = (0.36 :: real)"
  by (simp add: SweptAABB_def Times_eqs Distance_defs box_at_def SweptAABB_decide_def Let_def)

text \<open>
  The cascade at Main.cpp 217-261 on every input of the collision branch: the arm of an
  axis runs exactly when that axis's entry time is strictly greater than the other two, so
  at most one arm runs; when no arm runs, what comes back as the normal is what went in.
\<close>

theorem SweptAABB_normal_cascade:
  assumes "xTimes box1 box2 vel1 = Inr (xE, xX)"
    and "yTimes box1 box2 vel1 = Inr (yE, yX)"
    and "zTimes box1 box2 vel1 = Inr (zE, zX)"
    and "\<not> no_collision_test xE yE zE xX yX zX"
  shows "SweptAABB box1 box2 vel1 normal =
           Inr (max (max xE yE) zE,
                case normal_arm xE yE zE of
                  Some AxisX \<Rightarrow> (if xDistanceEntry box1 box2 vel1 < 0 then 1 else - 1, 0, 0)
                | Some AxisY \<Rightarrow> (0, if yDistanceEntry box1 box2 vel1 < 0 then 1 else - 1, 0)
                | Some AxisZ \<Rightarrow> (0, 0, if zDistanceEntry box1 box2 vel1 < 0 then 1 else - 1)
                | None \<Rightarrow> normal)
       \<and> (normal_arm xE yE zE = Some AxisX \<longleftrightarrow> xE > yE \<and> xE > zE)
       \<and> (normal_arm xE yE zE = Some AxisY \<longleftrightarrow> yE > xE \<and> yE > zE)
       \<and> (normal_arm xE yE zE = Some AxisZ \<longleftrightarrow> zE > xE \<and> zE > yE)
       \<and> (normal_arm xE yE zE = None \<longleftrightarrow>
            \<not> (xE > yE \<and> xE > zE) \<and> \<not> (yE > xE \<and> yE > zE) \<and> \<not> (zE > xE \<and> zE > yE))"
proof -
  have "SweptAABB box1 box2 vel1 normal =
           Inr (max (max xE yE) zE,
                case normal_arm xE yE zE of
                  Some AxisX \<Rightarrow> (if xDistanceEntry box1 box2 vel1 < 0 then 1 else - 1, 0, 0)
                | Some AxisY \<Rightarrow> (0, if yDistanceEntry box1 box2 vel1 < 0 then 1 else - 1, 0)
                | Some AxisZ \<Rightarrow> (0, 0, if zDistanceEntry box1 box2 vel1 < 0 then 1 else - 1)
                | None \<Rightarrow> normal)"
    unfolding SweptAABB_eq [OF assms(1-3)] decide_collision [OF assms(4)]
    by (simp add: normal_arm_def)
  then show ?thesis
    using normal_arm_iff [of xE yE zE] by blast
qed

theorem SweptAABB_normal_cascade_witness:
  "\<not> no_collision_test (Fin 0.36) NegInf NegInf (Fin 0.44) PosInf PosInf
   \<and> normal_arm (Fin 0.36) NegInf NegInf = Some AxisX
   \<and> SweptAABB (box_at (vec3 0 0 0) 0.1) (box_at (vec3 2 0 0) 0.1) (vec3 5 0 0) (7, 8, 9)
       = Inr (Fin 0.36, - 1, 0, 0)
   \<and> \<not> no_collision_test (Fin 0.5) (Fin 0.5) NegInf (Fin 1.5) (Fin 1.5) PosInf
   \<and> normal_arm (Fin 0.5) (Fin 0.5) NegInf = None
   \<and> SweptAABB \<lparr>box_min = vec3 0 0 0, box_max = vec3 1 1 1\<rparr>
        \<lparr>box_min = vec3 2 2 0, box_max = vec3 3 3 1\<rparr> (vec3 2 2 0) (7, 8, 9)
       = Inr (Fin 0.5, 7, 8, 9)"
proof -
  have c1: "\<not> no_collision_test (Fin 0.36) NegInf NegInf (Fin 0.44) PosInf PosInf"
    by simp
  have c2: "\<not> no_collision_test (Fin 0.5) (Fin 0.5) NegInf (Fin 1.5) (Fin 1.5) PosInf"
    by simp
  have a1: "normal_arm (Fin 0.36) NegInf NegInf = Some AxisX"
    by (simp add: normal_arm_def)
  have a2: "normal_arm (Fin 0.5) (Fin 0.5) NegInf = None"
    by (simp add: normal_arm_def)
  have d: "xDistanceEntry (box_at (vec3 0 0 0) 0.1) (box_at (vec3 2 0 0) 0.1) (vec3 5 0 0) = 1.8"
    by (simp add: Distance_defs box_at_def)
  from SweptAABB_normal_cascade [OF scenario_tunnel_times c1, of "(7, 8, 9)"]
  have 1: "SweptAABB (box_at (vec3 0 0 0) 0.1) (box_at (vec3 2 0 0) 0.1) (vec3 5 0 0) (7, 8, 9)
       = Inr (Fin 0.36, - 1, 0, 0)"
    by (simp add: a1 d)
  from SweptAABB_normal_cascade [OF scenario_tie_times c2, of "(7, 8, 9)"]
  have 2: "SweptAABB \<lparr>box_min = vec3 0 0 0, box_max = vec3 1 1 1\<rparr>
        \<lparr>box_min = vec3 2 2 0, box_max = vec3 3 3 1\<rparr> (vec3 2 2 0) (7, 8, 9)
       = Inr (Fin 0.5, 7, 8, 9)"
    by (simp add: a2)
  from c1 c2 a1 a2 1 2 show ?thesis by blast
qed

text \<open>
  C9. The claim asks that on every input of the collision branch one arm of the cascade
  assigns the three normal out-parameters. The code does not do so on a tie: with the x and
  y entry times both 0.5 and both the latest, \<open>SweptAABB\<close> returns the collision time 0.5,
  no arm runs, and the normal that comes back is the one that went in, here (7, 8, 9). The
  cascade has no final \<^verbatim>\<open>else\<close>; the comment at Main.cpp 304 has the normals passed out
  of \<^verbatim>\<open>SweptAABB\<close>, and every other path of the function writes them.
\<close>

theorem tie_leaves_normal_unassigned:
  "xTimes \<lparr>box_min = vec3 0 0 0, box_max = vec3 1 1 1\<rparr> \<lparr>box_min = vec3 2 2 0, box_max = vec3 3 3 1\<rparr>
     (vec3 2 2 0) = Inr (Fin 0.5, Fin 1.5)
   \<and> yTimes \<lparr>box_min = vec3 0 0 0, box_max = vec3 1 1 1\<rparr> \<lparr>box_min = vec3 2 2 0, box_max = vec3 3 3 1\<rparr>
     (vec3 2 2 0) = Inr (Fin 0.5, Fin 1.5)
   \<and> zTimes \<lparr>box_min = vec3 0 0 0, box_max = vec3 1 1 1\<rparr> \<lparr>box_min = vec3 2 2 0, box_max = vec3 3 3 1\<rparr>
     (vec3 2 2 0) = Inr (NegInf, PosInf)
   \<and> \<not> no_collision_test (Fin 0.5) (Fin 0.5) NegInf (Fin 1.5) (Fin 1.5) PosInf
   \<and> normal_arm (Fin 0.5) (Fin 0.5) NegInf = None
   \<and> SweptAABB \<lparr>box_min = vec3 0 0 0, box_max = vec3 1 1 1\<rparr>
        \<lparr>box_min = vec3 2 2 0, box_max = vec3 3 3 1\<rparr> (vec3 2 2 0) (7, 8, 9)
       = Inr (Fin 0.5, 7, 8, 9)"
  by (simp add: scenario_tie_times normal_arm_def SweptAABB_def SweptAABB_decide_def Let_def
      Distance_defs)

section \<open>Properties of update\<close>

subsection \<open>Helper facts\<close>

lemma vec3_eq_iff: "(u :: vec3) = v \<longleftrightarrow> vec_x u = vec_x v \<and> vec_y u = vec_y v \<and> vec_z u = vec_z v"
  by (cases u; cases v) auto

lemma apply_obj_sel [simp]:
  "obj1 (apply_obj ob f w) = (if ob = Obj1 then f (obj1 w) else obj1 w)"
  "obj2 (apply_obj ob f w) = (if ob = Obj2 then f (obj2 w) else obj2 w)"
  "calls (apply_obj ob f w) = calls w"
  by (cases ob; simp add: apply_obj_def)+

lemma call_sel [simp]:
  "obj1 (SetVelocity ob v w) = (if ob = Obj1 then GameObject_SetVelocity v (obj1 w) else obj1 w)"
  "obj2 (SetVelocity ob v w) = (if ob = Obj2 then GameObject_SetVelocity v (obj2 w) else obj2 w)"
  "calls (SetVelocity ob v w) = calls w @ [CallSetVelocity ob v]"
  "obj1 (Rotate ob r w) = (if ob = Obj1 then GameObject_Rotate r (obj1 w) else obj1 w)"
  "obj2 (Rotate ob r w) = (if ob = Obj2 then GameObject_Rotate r (obj2 w) else obj2 w)"
  "calls (Rotate ob r w) = calls w @ [CallRotate ob r]"
  "obj1 (CalculateAABB ob w) = (if ob = Obj1 then GameObject_CalculateAABB (obj1 w) else obj1 w)"
  "obj2 (CalculateAABB ob w) = (if ob = Obj2 then GameObject_CalculateAABB (obj2 w) else obj2 w)"
  "calls (CalculateAABB ob w) = calls w @ [CallCalculateAABB ob]"
  "obj1 (Update ob dt w) = (if ob = Obj1 then GameObject_Update dt (obj1 w) else obj1 w)"
  "obj2 (Update ob dt w) = (if ob = Obj2 then GameObject_Update dt (obj2 w) else obj2 w)"
  "calls (Update ob dt w) = calls w @ [CallUpdate ob dt]"
  "obj1 (called_SweptAABB b1 b2 vel w) = obj1 w"
  "obj2 (called_SweptAABB b1 b2 vel w) = obj2 w"
  "calls (called_SweptAABB b1 b2 vel w) = calls w @ [CallSweptAABB b1 b2 vel]"
  by (simp_all add: SetVelocity_def Rotate_def CalculateAABB_def Update_def called_SweptAABB_def)

lemma GameObject_sel [simp]:
  "velocity (GameObject_SetVelocity v g) = v"
  "position (GameObject_SetVelocity v g) = position g"
  "velocity (GameObject_Rotate r g) = velocity g"
  "position (GameObject_Rotate r g) = position g"
  "velocity (GameObject_CalculateAABB g) = velocity g"
  "position (GameObject_CalculateAABB g) = position g"
  "velocity (GameObject_Update dt g) = velocity g"
  "position (GameObject_Update dt g) = vec3_add (position g) (vec3_scale (velocity g) dt)"
  by (simp_all add: GameObject_SetVelocity_def GameObject_Rotate_def GameObject_CalculateAABB_def
      GameObject_Update_def)

lemma boundary_check_sel:
  "obj1 (boundary_check w) = obj1 w"
  "position (obj2 (boundary_check w)) = position (obj2 w)"
  "velocity (obj2 (boundary_check w)) =
     vec3 (if \<bar>vec_x (position (obj2 w))\<bar> > 0.9 then - vec_x (velocity (obj2 w)) else vec_x (velocity (obj2 w)))
          (if \<bar>vec_y (position (obj2 w))\<bar> > 0.8 then - vec_y (velocity (obj2 w)) else vec_y (velocity (obj2 w)))
          (if \<bar>vec_z (position (obj2 w))\<bar> > 1.0 then - vec_z (velocity (obj2 w)) else vec_z (velocity (obj2 w)))"
  "calls (boundary_check w) = calls w @ boundary_calls (position (obj2 w)) (velocity (obj2 w))"
  by (simp_all add: boundary_check_def boundary_calls_def Let_def vec3_eq_iff)

lemma before_sweep_sel:
  "velocity (obj1 (before_sweep w)) = velocity (obj1 w)"
  "position (obj1 (before_sweep w)) = position (obj1 w)"
  "velocity (obj2 (before_sweep w)) = velocity (obj2 (boundary_check w))"
  "position (obj2 (before_sweep w)) = position (obj2 w)"
  "calls (before_sweep w) =
     calls (boundary_check w) @
       [CallRotate Obj1 (vec3 (radians 1.0) (radians 1.0) (radians 0.0)),
        CallRotate Obj2 (vec3 (radians 1.0) (radians 1.0) (radians 0.0)),
        CallCalculateAABB Obj1, CallCalculateAABB Obj2]"
  by (simp_all add: before_sweep_def boundary_check_sel)

lemma SweptAABB_time:
  "\<exists>t normal'. SweptAABB box1 box2 vel1 normal = Inr (Fin t, normal') \<and> (0 \<le> t \<and> t \<le> 1 \<or> t = 2)"
proof -
  obtain xE xX where x: "xTimes box1 box2 vel1 = Inr (xE, xX)"
    using Times_defined(1) by blast
  obtain yE yX where y: "yTimes box1 box2 vel1 = Inr (yE, yX)"
    using Times_defined(2) by blast
  obtain zE zX where z: "zTimes box1 box2 vel1 = Inr (zE, zX)"
    using Times_defined(3) by blast
  note eq = SweptAABB_eq [OF x y z, of normal]
  show ?thesis
  proof (cases "no_collision_test xE yE zE xX yX zX")
    case True
    then have "SweptAABB box1 box2 vel1 normal = Inr (Fin 2, 0, 0, 0)"
      unfolding eq using decide_no_collision_iff by simp
    then show ?thesis by simp
  next
    case False
    from decide_collision_time [OF False] obtain t where
      t: "max (max xE yE) zE = Fin t" "0 \<le> t" "t \<le> 1" by blast
    show ?thesis
      unfolding eq decide_collision [OF False] t(1) using t(2,3) by blast
  qed
qed

lemma update_eq:
  assumes "SweptAABB (aabb (obj2 (before_sweep w))) (aabb (obj1 (before_sweep w)))
             (vec3_scale (velocity (obj2 (before_sweep w))) dt) indeterminate = Inr (Fin t, normal)"
  shows "update indeterminate dt w =
     Inr (let w8 = called_SweptAABB (aabb (obj2 (before_sweep w))) (aabb (obj1 (before_sweep w)))
                     (vec3_scale (velocity (obj2 (before_sweep w))) dt) (before_sweep w)
          in if t \<le> 1 then
               Update Obj2 ((1 - t) * dt) (Update Obj1 ((1 - t) * dt)
                 (SetVelocity Obj2 (bounce normal (velocity (obj2 (before_sweep w))))
                    (Update Obj2 (t * dt) (Update Obj1 (t * dt) w8))))
             else Update Obj2 dt (Update Obj1 dt w8))"
  using assms by (simp add: update_def before_sweep_def Let_def)

lemma update_defined: "\<exists>w'. update indeterminate dt w = Inr w'"
proof -
  obtain t normal where "SweptAABB (aabb (obj2 (before_sweep w))) (aabb (obj1 (before_sweep w)))
             (vec3_scale (velocity (obj2 (before_sweep w))) dt) indeterminate = Inr (Fin t, normal)"
    using SweptAABB_time by blast
  from update_eq [OF this] show ?thesis by blast
qed

lemma bounce_sel:
  "bounce (normalx, normaly, normalz) v =
     vec3 (if \<bar>normalx\<bar> > 0.0001 then - vec_x v else vec_x v)
          (if \<bar>normaly\<bar> > 0.0001 then - vec_y v else vec_y v)
          (if \<bar>normalz\<bar> > 0.0001 then - vec_z v else vec_z v)"
  by (simp add: bounce_def Let_def vec3_eq_iff)

lemma vec3_length_flip:
  "vec3_length (vec3 (if a then - x else x) (if b then - y else y) (if c then - z else z))
     = vec3_length (vec3 x y z)"
  by (simp add: vec3_length_def)

lemma vec3_eta: "vec3 (vec_x v) (vec_y v) (vec_z v) = v"
  by (simp add: vec3_eq_iff)

lemmas scene_defs = scene_of_def body_at_def before_sweep_def boundary_check_def Let_def
  GameObject_SetVelocity_def GameObject_Rotate_def GameObject_CalculateAABB_def GameObject_Update_def

lemma scenario_bounce_sweep:
  "SweptAABB
     (aabb (obj2 (before_sweep (scene_of (body_at (vec3 0 0 0) (vec3 0 0 0))
                                  (body_at (vec3 0 0 0.5) (vec3 0 0 (- 50)))))))
     (aabb (obj1 (before_sweep (scene_of (body_at (vec3 0 0 0) (vec3 0 0 0))
                                  (body_at (vec3 0 0 0.5) (vec3 0 0 (- 50)))))))
     (vec3_scale (velocity (obj2 (before_sweep (scene_of (body_at (vec3 0 0 0) (vec3 0 0 0))
                                  (body_at (vec3 0 0 0.5) (vec3 0 0 (- 50))))))) 0.012)
     (7, 8, 9)
   = Inr (Fin 0.5, 0, 0, 1)"
  by (simp add: scene_defs vec3_scale_def SweptAABB_def Times_eqs Distance_defs box_at_def
      SweptAABB_decide_def)

subsection \<open>The claims about update\<close>

text \<open>
  C7. In a tick whose collision time is in [0, 1] and in which the boundary check does not
  fire, \<^verbatim>\<open>obj2\<close> leaves \<open>update\<close> with the velocity it entered with, except that each
  component whose normal component is larger than 0.0001 in magnitude has its sign flipped;
  the norm of the velocity is the same before and after. The integration of the body is
  modelled from the spec (it leaves the velocity as it is).
\<close>

theorem update_bounce_preserves_speed:
  assumes "SweptAABB (aabb (obj2 (before_sweep w))) (aabb (obj1 (before_sweep w)))
             (vec3_scale (velocity (obj2 (before_sweep w))) dt) indeterminate
           = Inr (Fin t, normalx, normaly, normalz)"
    and "0 \<le> t" and "t \<le> 1"
    and "\<not> \<bar>vec_x (position (obj2 w))\<bar> > 0.9"
    and "\<not> \<bar>vec_y (position (obj2 w))\<bar> > 0.8"
    and "\<not> \<bar>vec_z (position (obj2 w))\<bar> > 1.0"
  shows "\<exists>w'. update indeterminate dt w = Inr w'
           \<and> velocity (obj2 w') =
               vec3 (if \<bar>normalx\<bar> > 0.0001 then - vec_x (velocity (obj2 w)) else vec_x (velocity (obj2 w)))
                    (if \<bar>normaly\<bar> > 0.0001 then - vec_y (velocity (obj2 w)) else vec_y (velocity (obj2 w)))
                    (if \<bar>normalz\<bar> > 0.0001 then - vec_z (velocity (obj2 w)) else vec_z (velocity (obj2 w)))
           \<and> vec3_length (velocity (obj2 w')) = vec3_length (velocity (obj2 w))"
proof -
  have v: "velocity (obj2 (before_sweep w)) = velocity (obj2 w)"
    using assms(4-6) by (simp add: before_sweep_sel boundary_check_sel vec3_eta)
  let ?w' = "Update Obj2 ((1 - t) * dt) (Update Obj1 ((1 - t) * dt)
                 (SetVelocity Obj2 (bounce (normalx, normaly, normalz) (velocity (obj2 (before_sweep w))))
                    (Update Obj2 (t * dt) (Update Obj1 (t * dt)
                       (called_SweptAABB (aabb (obj2 (before_sweep w))) (aabb (obj1 (before_sweep w)))
                     (vec3_scale (velocity (obj2 (before_sweep w))) dt) (before_sweep w))))))"
  have u: "update indeterminate dt w = Inr ?w'"
    using update_eq [OF assms(1)] assms(3) by (simp add: Let_def)
  have vel: "velocity (obj2 ?w') = bounce (normalx, normaly, normalz) (velocity (obj2 w))"
    by (simp add: v)
  have len: "vec3_length (bounce (normalx, normaly, normalz) (velocity (obj2 w)))
               = vec3_length (velocity (obj2 w))"
    unfolding bounce_sel vec3_length_flip by (simp add: vec3_eta)
  show ?thesis
    using u vel len by (simp add: bounce_sel)
qed

theorem update_bounce_preserves_speed_witness:
  "SweptAABB
     (aabb (obj2 (before_sweep (scene_of (body_at (vec3 0 0 0) (vec3 0 0 0))
                                  (body_at (vec3 0 0 0.5) (vec3 0 0 (- 50)))))))
     (aabb (obj1 (before_sweep (scene_of (body_at (vec3 0 0 0) (vec3 0 0 0))
                                  (body_at (vec3 0 0 0.5) (vec3 0 0 (- 50)))))))
     (vec3_scale (velocity (obj2 (before_sweep (scene_of (body_at (vec3 0 0 0) (vec3 0 0 0))
                                  (body_at (vec3 0 0 0.5) (vec3 0 0 (- 50))))))) 0.012)
     (7, 8, 9)
   = Inr (Fin 0.5, 0, 0, 1)
   \<and> (0 :: real) \<le> 0.5 \<and> (0.5 :: real) \<le> 1
   \<and> \<not> \<bar>vec_x (vec3 0 0 0.5)\<bar> > 0.9 \<and> \<not> \<bar>vec_y (vec3 0 0 0.5)\<bar> > 0.8 \<and> \<not> \<bar>vec_z (vec3 0 0 0.5)\<bar> > 1.0
   \<and> (\<exists>w'. update (7, 8, 9) 0.012
               (scene_of (body_at (vec3 0 0 0) (vec3 0 0 0)) (body_at (vec3 0 0 0.5) (vec3 0 0 (- 50))))
             = Inr w'
           \<and> velocity (obj2 w') = vec3 0 0 50
           \<and> vec3_length (velocity (obj2 w')) = vec3_length (vec3 0 0 (- 50)))"
proof -
  have b: "\<not> \<bar>vec_x (position (obj2 (scene_of (body_at (vec3 0 0 0) (vec3 0 0 0)) (body_at (vec3 0 0 0.5) (vec3 0 0 (- 50))))))\<bar> > 0.9"
      "\<not> \<bar>vec_y (position (obj2 (scene_of (body_at (vec3 0 0 0) (vec3 0 0 0)) (body_at (vec3 0 0 0.5) (vec3 0 0 (- 50))))))\<bar> > 0.8"
      "\<not> \<bar>vec_z (position (obj2 (scene_of (body_at (vec3 0 0 0) (vec3 0 0 0)) (body_at (vec3 0 0 0.5) (vec3 0 0 (- 50))))))\<bar> > 1.0"
    by (simp_all add: scene_of_def body_at_def)
  have t: "(0 :: real) \<le> 0.5" "(0.5 :: real) \<le> 1"
    by simp_all
  from update_bounce_preserves_speed [OF scenario_bounce_sweep t b]
  have "\<exists>w'. update (7, 8, 9) 0.012
               (scene_of (body_at (vec3 0 0 0) (vec3 0 0 0)) (body_at (vec3 0 0 0.5) (vec3 0 0 (- 50))))
             = Inr w'
           \<and> velocity (obj2 w') = vec3 0 0 50
           \<and> vec3_length (velocity (obj2 w')) = vec3_length (vec3 0 0 (- 50))"
    by (simp add: scene_of_def body_at_def)
  with scenario_bounce_sweep t show ?thesis
    by simp
qed

text \<open>
  C10. In every tick \<^verbatim>\<open>obj1\<close> leaves \<open>update\<close> with the velocity it entered with and with
  its position advanced by that velocity times the full \<open>dt\<close>, whichever branch is taken:
  integrating by \<open>t * dt\<close> and then by \<open>(1 - t) * dt\<close> gives the body that one integration
  by \<open>dt\<close> gives. The integration is modelled from the spec.
\<close>

theorem update_stationary_body_motion:
  "(\<exists>w'. update indeterminate dt w = Inr w'
        \<and> velocity (obj1 w') = velocity (obj1 w)
        \<and> position (obj1 w') = vec3_add (position (obj1 w)) (vec3_scale (velocity (obj1 w)) dt))
   \<and> GameObject_Update ((1 - t) * dt) (GameObject_Update (t * dt) g) = GameObject_Update dt g"
proof -
  obtain s normal where sw: "SweptAABB (aabb (obj2 (before_sweep w))) (aabb (obj1 (before_sweep w)))
             (vec3_scale (velocity (obj2 (before_sweep w))) dt) indeterminate = Inr (Fin s, normal)"
    using SweptAABB_time by blast
  have two: "vec3_add (vec3_add p (vec3_scale v (s * dt))) (vec3_scale v ((1 - s) * dt))
               = vec3_add p (vec3_scale v dt)" for p v s
    by (simp add: vec3_add_def vec3_scale_def vec3_eq_iff algebra_simps)
  have "\<exists>w'. update indeterminate dt w = Inr w'
        \<and> velocity (obj1 w') = velocity (obj1 w)
        \<and> position (obj1 w') = vec3_add (position (obj1 w)) (vec3_scale (velocity (obj1 w)) dt)"
    unfolding update_eq [OF sw] by (simp add: Let_def before_sweep_sel two)
  moreover have "GameObject_Update ((1 - t) * dt) (GameObject_Update (t * dt) g) = GameObject_Update dt g"
    by (simp add: GameObject_Update_def two)
  ultimately show ?thesis by blast
qed

text \<open>
  C8, as the code has it. The calls of a tick come in this order: first the calls of the
  boundary check on \<^verbatim>\<open>obj2\<close> (one \<^verbatim>\<open>SetVelocity\<close> for each axis on which the position
  exceeds 0.9, 0.8 or 1.0 in magnitude), then the rotation of \<^verbatim>\<open>obj1\<close> and of \<^verbatim>\<open>obj2\<close>,
  then the recomputation of the AABB of \<^verbatim>\<open>obj1\<close> and of \<^verbatim>\<open>obj2\<close>, then the call of
  \<^verbatim>\<open>SweptAABB\<close> on the box of \<^verbatim>\<open>obj2\<close>, the box of \<^verbatim>\<open>obj1\<close> and the velocity of
  \<^verbatim>\<open>obj2\<close>, as the boundary check left it, times \<open>dt\<close>; the integration calls follow.
\<close>

theorem update_call_order:
  "\<exists>w' rest. update indeterminate dt w = Inr w'
     \<and> calls w' =
         calls w @ boundary_calls (position (obj2 w)) (velocity (obj2 w))
         @ [CallRotate Obj1 (vec3 (radians 1.0) (radians 1.0) (radians 0.0)),
            CallRotate Obj2 (vec3 (radians 1.0) (radians 1.0) (radians 0.0)),
            CallCalculateAABB Obj1,
            CallCalculateAABB Obj2,
            CallSweptAABB (aabb (obj2 (before_sweep w))) (aabb (obj1 (before_sweep w)))
              (vec3_scale (velocity (obj2 (before_sweep w))) dt)]
         @ rest
     \<and> velocity (obj2 (before_sweep w)) =
         vec3 (if \<bar>vec_x (position (obj2 w))\<bar> > 0.9 then - vec_x (velocity (obj2 w)) else vec_x (velocity (obj2 w)))
              (if \<bar>vec_y (position (obj2 w))\<bar> > 0.8 then - vec_y (velocity (obj2 w)) else vec_y (velocity (obj2 w)))
              (if \<bar>vec_z (position (obj2 w))\<bar> > 1.0 then - vec_z (velocity (obj2 w)) else vec_z (velocity (obj2 w)))"
proof -
  obtain s normal where sw: "SweptAABB (aabb (obj2 (before_sweep w))) (aabb (obj1 (before_sweep w)))
             (vec3_scale (velocity (obj2 (before_sweep w))) dt) indeterminate = Inr (Fin s, normal)"
    using SweptAABB_time by blast
  show ?thesis
    unfolding update_eq [OF sw] by (simp add: Let_def before_sweep_sel boundary_check_sel)
qed

text \<open>
  The claim as it was written fails: it puts the boundary check after the rotation and the
  recomputation of the boxes. For a moving body at x = 1, beyond the boundary 0.9, the first
  call of the tick is the \<^verbatim>\<open>SetVelocity\<close> of the boundary check; the rotations come after it.
\<close>

theorem boundary_check_precedes_rotation:
  "map_sum id calls
     (update (0, 0, 0) 0.012
        (scene_of (body_at (vec3 0 0 0) (vec3 0 0 0)) (body_at (vec3 1 0 0) (vec3 1 0 0))))
   = Inr [CallSetVelocity Obj2 (vec3 (- 1) 0 0),
          CallRotate Obj1 (vec3 (radians 1.0) (radians 1.0) (radians 0.0)),
          CallRotate Obj2 (vec3 (radians 1.0) (radians 1.0) (radians 0.0)),
          CallCalculateAABB Obj1,
          CallCalculateAABB Obj2,
          CallSweptAABB (box_at (vec3 1 0 0) 0.1) (box_at (vec3 0 0 0) 0.1) (vec3 (- 0.012) 0 0),
          CallUpdate Obj1 0.012,
          CallUpdate Obj2 0.012]"
proof -
  have sw: "SweptAABB
     (aabb (obj2 (before_sweep (scene_of (body_at (vec3 0 0 0) (vec3 0 0 0))
                                  (body_at (vec3 1 0 0) (vec3 1 0 0))))))
     (aabb (obj1 (before_sweep (scene_of (body_at (vec3 0 0 0) (vec3 0 0 0))
                                  (body_at (vec3 1 0 0) (vec3 1 0 0))))))
     (vec3_scale (velocity (obj2 (before_sweep (scene_of (body_at (vec3 0 0 0) (vec3 0 0 0))
                                  (body_at (vec3 1 0 0) (vec3 1 0 0)))))) 0.012)
     (0, 0, 0)
   = Inr (Fin 2, 0, 0, 0)"
    by (simp add: scene_defs vec3_scale_def SweptAABB_def Times_eqs Distance_defs box_at_def
        SweptAABB_decide_def)
  show ?thesis
    unfolding update_eq [OF sw]
    by (simp add: scene_defs vec3_scale_def box_at_def vec3_eq_iff)
qed

text \<open>
  What the tie does to a tick. The moving body approaches the other body along the diagonal
  of x and y, so the two entry times tie at 0.5. \<open>update\<close> then bounces the velocity on the
  axes that the values its locals \<^verbatim>\<open>normalx\<close>, \<^verbatim>\<open>normaly\<close>, \<^verbatim>\<open>normalz\<close> started with
  select: with (0, 0, 0) the velocity is not reflected at all, with (1, 0, 0) on x only,
  with (1, 1, 1) on x and y.
\<close>

lemma scenario_tie_sweep:
  "SweptAABB
     (aabb (obj2 (before_sweep (scene_of (body_at (vec3 0 0 0) (vec3 0 0 0))
                                  (body_at (vec3 0.5 0.5 0) (vec3 (- 50) (- 50) 0))))))
     (aabb (obj1 (before_sweep (scene_of (body_at (vec3 0 0 0) (vec3 0 0 0))
                                  (body_at (vec3 0.5 0.5 0) (vec3 (- 50) (- 50) 0))))))
     (vec3_scale (velocity (obj2 (before_sweep (scene_of (body_at (vec3 0 0 0) (vec3 0 0 0))
                                  (body_at (vec3 0.5 0.5 0) (vec3 (- 50) (- 50) 0)))))) 0.012)
     indeterminate
   = Inr (Fin 0.5, indeterminate)"
  by (simp add: scene_defs vec3_scale_def SweptAABB_def Times_eqs Distance_defs box_at_def
      SweptAABB_decide_def)

lemma tie_bounce_follows_uninitialised_locals:
  "map_sum id (\<lambda>w'. velocity (obj2 w'))
     (update (0, 0, 0) 0.012
        (scene_of (body_at (vec3 0 0 0) (vec3 0 0 0)) (body_at (vec3 0.5 0.5 0) (vec3 (- 50) (- 50) 0))))
     = Inr (vec3 (- 50) (- 50) 0)
   \<and> map_sum id (\<lambda>w'. velocity (obj2 w'))
     (update (1, 0, 0) 0.012
        (scene_of (body_at (vec3 0 0 0) (vec3 0 0 0)) (body_at (vec3 0.5 0.5 0) (vec3 (- 50) (- 50) 0))))
     = Inr (vec3 50 (- 50) 0)
   \<and> map_sum id (\<lambda>w'. velocity (obj2 w'))
     (update (1, 1, 1) 0.012
        (scene_of (body_at (vec3 0 0 0) (vec3 0 0 0)) (body_at (vec3 0.5 0.5 0) (vec3 (- 50) (- 50) 0))))
     = Inr (vec3 50 50 0)"
  unfolding update_eq [OF scenario_tie_sweep]
  by (simp add: scene_defs bounce_sel vec3_eq_iff)

section \<open>Properties of checkTime\<close>

subsection \<open>Helper facts\<close>

lemma ticks_defined: "\<exists>w'. ticks indet k n w = Inr w'"
proof (induction n arbitrary: k w)
  case 0
  show ?case by simp
next
  case (Suc n)
  obtain w1 where "update (indet k) physicsStep w = Inr w1"
    using update_defined by blast
  with Suc [of "Suc k" w1] show ?case by simp
qed

lemma whole_steps:
  assumes "0 \<le> acc"
  shows "0 \<le> acc - real (nat \<lfloor>acc / physicsStep\<rfloor>) * physicsStep"
    and "acc - real (nat \<lfloor>acc / physicsStep\<rfloor>) * physicsStep < physicsStep"
proof -
  define n where "n = \<lfloor>acc / physicsStep\<rfloor>"
  have pos: "0 < physicsStep" by (simp add: physicsStep_def)
  have "0 \<le> acc / physicsStep" using assms pos by simp
  then have nn: "0 \<le> n" unfolding n_def by simp
  then have r: "real (nat n) = of_int n" by simp
  have lo: "of_int n \<le> acc / physicsStep" and hi: "acc / physicsStep < of_int n + 1"
    unfolding n_def by linarith+
  from lo have "of_int n * physicsStep \<le> acc"
    using pos pos_le_divide_eq [of physicsStep "of_int n" acc] by blast
  then show "0 \<le> acc - real (nat \<lfloor>acc / physicsStep\<rfloor>) * physicsStep"
    unfolding n_def [symmetric] r by simp
  from hi have "acc < (of_int n + 1) * physicsStep"
    using pos pos_divide_less_eq [of physicsStep acc "of_int n + 1"] by blast
  then show "acc - real (nat \<lfloor>acc / physicsStep\<rfloor>) * physicsStep < physicsStep"
    unfolding n_def [symmetric] r by (simp add: algebra_simps)
qed

lemma whole_steps_Suc:
  assumes "physicsStep \<le> acc"
  shows "nat \<lfloor>acc / physicsStep\<rfloor> = Suc (nat \<lfloor>(acc - physicsStep) / physicsStep\<rfloor>)"
proof -
  define n where "n = \<lfloor>acc / physicsStep\<rfloor>"
  have pos: "0 < physicsStep" by (simp add: physicsStep_def)
  have e: "(acc - physicsStep) / physicsStep = acc / physicsStep - 1"
    using pos by (simp add: diff_divide_distrib)
  have "1 \<le> acc / physicsStep" using assms pos by (simp add: pos_le_divide_eq)
  then have n1: "1 \<le> n" unfolding n_def by (simp add: le_floor_iff)
  have fl: "\<lfloor>acc / physicsStep - 1\<rfloor> = n - 1" unfolding n_def by simp
  show ?thesis unfolding e fl n_def [symmetric] using n1 by linarith
qed

lemma whole_steps_0:
  assumes "0 \<le> acc" "\<not> physicsStep \<le> acc"
  shows "nat \<lfloor>acc / physicsStep\<rfloor> = 0"
proof -
  have pos: "0 < physicsStep" by (simp add: physicsStep_def)
  have "acc / physicsStep < 1" using assms pos by (simp add: pos_divide_less_eq)
  then have "\<lfloor>acc / physicsStep\<rfloor> < 1" by (simp add: floor_less_iff)
  then show ?thesis by simp
qed

lemma checkTime_loop_eq:
  "0 \<le> acc \<Longrightarrow>
   \<exists>w'. ticks indet k (nat \<lfloor>acc / physicsStep\<rfloor>) w = Inr w'
       \<and> checkTime_loop indet k acc w = Inr (acc - real (nat \<lfloor>acc / physicsStep\<rfloor>) * physicsStep, w')"
proof (induction indet k acc w rule: checkTime_loop.induct)
  case (1 indet k acc w)
  show ?case
  proof (cases "physicsStep \<le> acc")
    case True
    obtain w1 where u: "update (indet k) physicsStep w = Inr w1"
      using update_defined by blast
    from True have "0 \<le> acc - physicsStep" by simp
    from "1.IH" [OF True u this] obtain w' where
      t: "ticks indet (Suc k) (nat \<lfloor>(acc - physicsStep) / physicsStep\<rfloor>) w1 = Inr w'"
      and l: "checkTime_loop indet (Suc k) (acc - physicsStep) w1 =
             Inr (acc - physicsStep - real (nat \<lfloor>(acc - physicsStep) / physicsStep\<rfloor>) * physicsStep, w')"
      by blast
    have "ticks indet k (nat \<lfloor>acc / physicsStep\<rfloor>) w = Inr w'"
      unfolding whole_steps_Suc [OF True] using u t by simp
    moreover have "checkTime_loop indet k acc w =
        Inr (acc - real (nat \<lfloor>acc / physicsStep\<rfloor>) * physicsStep, w')"
      unfolding whole_steps_Suc [OF True]
      by (subst checkTime_loop.simps) (simp add: True u l algebra_simps)
    ultimately show ?thesis by blast
  next
    case False
    have "checkTime_loop indet k acc w = Inr (acc, w)"
      by (subst checkTime_loop.simps) (simp add: False)
    then show ?thesis
      using whole_steps_0 [OF "1.prems" False] by simp
  qed
qed

lemma checkTime_pass:
  assumes "0 \<le> accumulator g" and "now - timebase g > physicsStep"
  shows "\<exists>g' w'. checkTime now indet g = Inr g'
     \<and> ticks indet 0 (nat \<lfloor>(accumulator g + min (now - timebase g) 0.25) / physicsStep\<rfloor>) (scene g)
         = Inr w'
     \<and> scene g' = w'
     \<and> accumulator g' = accumulator g + min (now - timebase g) 0.25
         - real (nat \<lfloor>(accumulator g + min (now - timebase g) 0.25) / physicsStep\<rfloor>) * physicsStep
     \<and> 0 \<le> accumulator g' \<and> accumulator g' < physicsStep
     \<and> timebase g' = now"
proof -
  let ?a = "accumulator g + min (now - timebase g) 0.25"
  have "0 < now - timebase g" using assms(2) by (simp add: physicsStep_def)
  then have a: "0 \<le> ?a" using assms(1) by (simp add: min_def)
  from checkTime_loop_eq [OF a, of indet 0 "scene g"] obtain w' where
    t: "ticks indet 0 (nat \<lfloor>?a / physicsStep\<rfloor>) (scene g) = Inr w'"
    and l: "checkTime_loop indet 0 ?a (scene g) = Inr (?a - real (nat \<lfloor>?a / physicsStep\<rfloor>) * physicsStep, w')"
    by blast
  have c: "checkTime now indet g =
      Inr ((if now - FPSTime g > 1.0 then
              g\<lparr>time := now, fps := to_int (real_of_int (frame g) / (now - FPSTime g)),
                 FPSTime := now, frame := 0\<rparr>
            else g\<lparr>time := now\<rparr>)
           \<lparr>timebase := now,
            accumulator := ?a - real (nat \<lfloor>?a / physicsStep\<rfloor>) * physicsStep,
            scene := w'\<rparr>)"
  proof (cases "now - timebase g > 0.25")
    case True
    then have mm: "min (now - timebase g) 0.25 = 0.25" by simp
    show ?thesis
      unfolding mm using True assms(2) l [unfolded mm]
      by (simp add: checkTime_def Let_def)
  next
    case False
    then have mm: "min (now - timebase g) 0.25 = now - timebase g" by simp
    show ?thesis
      unfolding mm using False assms(2) l [unfolded mm]
      by (simp add: checkTime_def Let_def)
  qed
  show ?thesis
    unfolding c using t whole_steps [OF a] by simp
qed

lemma checkTime_idle:
  assumes "\<not> now - timebase g > physicsStep"
  shows "checkTime now indet g = Inr (g\<lparr>time := now\<rparr>)"
  using assms by (simp add: checkTime_def Let_def)

lemma reachable_accumulator:
  "reachable g \<Longrightarrow> 0 \<le> accumulator g \<and> accumulator g < physicsStep"
proof (induction rule: reachable.induct)
  case (start w0)
  show ?case by (simp add: main_start_def physicsStep_def)
next
  case (pass g now indet g')
  show ?case
  proof (cases "now - timebase g > physicsStep")
    case True
    from checkTime_pass [OF conjunct1 [OF pass.IH] True, of indet] pass.hyps(2)
    show ?thesis by auto
  next
    case False
    from checkTime_idle [OF False, of indet] pass.hyps(2) pass.IH
    show ?thesis by auto
  qed
qed

subsection \<open>The claim about checkTime\<close>

text \<open>
  C5. In every state the program reaches, a pass of \<open>checkTime\<close> that sees more than
  \<^verbatim>\<open>physicsStep\<close> since the last tick adds \<open>min dt 0.25\<close> to the accumulator and then calls
  \<^verbatim>\<open>update(physicsStep)\<close> once for each whole \<^verbatim>\<open>physicsStep\<close> in the accumulator, which is
  \<open>\<lfloor>accumulator / physicsStep\<rfloor>\<close> times, taking \<^verbatim>\<open>physicsStep\<close> off the accumulator each
  time. The loop ends, and on exit the accumulator is at least 0 and less than
  \<^verbatim>\<open>physicsStep\<close>.
\<close>

theorem checkTime_accumulator:
  assumes "reachable g" and "now - timebase g > physicsStep"
  shows "\<exists>g' w'. checkTime now indet g = Inr g'
     \<and> ticks indet 0 (nat \<lfloor>(accumulator g + min (now - timebase g) 0.25) / physicsStep\<rfloor>) (scene g)
         = Inr w'
     \<and> scene g' = w'
     \<and> accumulator g' = accumulator g + min (now - timebase g) 0.25
         - real (nat \<lfloor>(accumulator g + min (now - timebase g) 0.25) / physicsStep\<rfloor>) * physicsStep
     \<and> 0 \<le> accumulator g' \<and> accumulator g' < physicsStep"
  using checkTime_pass [OF conjunct1 [OF reachable_accumulator [OF assms(1)]] assms(2), of indet]
  by blast

theorem checkTime_accumulator_witness:
  "reachable (main_start (scene_of (body_at (vec3 0 0 0) (vec3 0 0 0))
                            (body_at (vec3 0 0 0.5) (vec3 0 0 (- 50)))))
   \<and> 0.03 - timebase (main_start (scene_of (body_at (vec3 0 0 0) (vec3 0 0 0))
                            (body_at (vec3 0 0 0.5) (vec3 0 0 (- 50))))) > physicsStep
   \<and> (\<exists>g' w'. checkTime 0.03 (\<lambda>k. (0, 0, 0))
                 (main_start (scene_of (body_at (vec3 0 0 0) (vec3 0 0 0))
                            (body_at (vec3 0 0 0.5) (vec3 0 0 (- 50))))) = Inr g'
         \<and> ticks (\<lambda>k. (0, 0, 0)) 0 2
                 (scene (main_start (scene_of (body_at (vec3 0 0 0) (vec3 0 0 0))
                            (body_at (vec3 0 0 0.5) (vec3 0 0 (- 50)))))) = Inr w'
         \<and> scene g' = w'
         \<and> accumulator g' = 0.006
         \<and> 0 \<le> accumulator g' \<and> accumulator g' < physicsStep)"
proof -
  let ?g = "main_start (scene_of (body_at (vec3 0 0 0) (vec3 0 0 0))
                            (body_at (vec3 0 0 0.5) (vec3 0 0 (- 50))))"
  have r: "reachable ?g"
    by (rule reachable.start)
  have d: "0.03 - timebase ?g > physicsStep"
    by (simp add: main_start_def physicsStep_def)
  have n: "nat \<lfloor>(accumulator ?g + min (0.03 - timebase ?g) 0.25) / physicsStep\<rfloor> = 2"
    by (simp add: main_start_def physicsStep_def)
  have a: "accumulator ?g + min (0.03 - timebase ?g) 0.25 - real 2 * physicsStep = 0.006"
    by (simp add: main_start_def physicsStep_def)
  from checkTime_accumulator [OF r d, of "\<lambda>k. (0, 0, 0)", unfolded n a] r d
  show ?thesis by blast
qed

end
